theory Spec2Isabelle
  imports Main "HOL-Library.Word"
begin

section \<open>Errors and results\<close>

text \<open>
  A Go \<^verbatim>\<open>error\<close> is either a message built with \<^verbatim>\<open>fmt.Errorf\<close> by the data service
  itself, or a failure value handed back by one of its collaborators (the cluster
  configuration, the session, the identifier generator). The service builds messages only
  for its not-found failures; a collaborator's failure is passed on as it is.
\<close>

type_synonym collaboratorFailure = string

datatype error = Errorf string | CollaboratorError collaboratorFailure

text \<open>
  A call either panics (a nil collaborator) or returns. A Go result pair
  \<^verbatim>\<open>(value, error)\<close> is a pair whose second component is \<open>None\<close> for \<^verbatim>\<open>nil\<close>.
\<close>

datatype 'a outcome = Panic string | Return 'a

section \<open>Identifiers\<close>

type_synonym byte = "8 word"

text \<open>The Go array type \<^verbatim>\<open>[16]byte\<close>.\<close>

typedef uuidArray = "{bs :: byte list. length bs = 16}"
  by (rule exI [of _ "replicate 16 0"]) simp

definition zeroArray :: uuidArray where
  "zeroArray = Abs_uuidArray (replicate 16 0)"

text \<open>
  Modelled from the spec: the package \<^verbatim>\<open>system\<close> of Micro-Business-Core is not part of the
  sources. Its \<^verbatim>\<open>UUID\<close> is "a 128-bit value convertible to/from its canonical textual form
  and to/from a raw byte sequence": sixteen bytes, \<^verbatim>\<open>Bytes\<close> giving them back,
  \<^verbatim>\<open>UUIDFromBytes\<close> taking exactly sixteen, \<^verbatim>\<open>String\<close> the canonical form
  (lower-case hexadecimal digits in groups of 8-4-4-4-12), \<^verbatim>\<open>EmptyUUID\<close> the zero value.
\<close>

datatype system_UUID = SystemUUID uuidArray

text \<open>The driver's own identifier type, \<^verbatim>\<open>gocql.UUID\<close>, is a \<^verbatim>\<open>[16]byte\<close> as well.\<close>

datatype gocql_UUID = GocqlUUID uuidArray

definition EmptyUUID :: system_UUID where
  "EmptyUUID = SystemUUID zeroArray"

fun UUID_Bytes :: "system_UUID \<Rightarrow> byte list" where
  "UUID_Bytes (SystemUUID a) = Rep_uuidArray a"

fun gocql_Bytes :: "gocql_UUID \<Rightarrow> byte list" where
  "gocql_Bytes (GocqlUUID a) = Rep_uuidArray a"

definition system_UUIDFromBytes :: "byte list \<Rightarrow> system_UUID \<times> error option" where
  "system_UUIDFromBytes input =
     (if length input \<noteq> 16
      then (EmptyUUID, Some (CollaboratorError ''UUIDs must be exactly 16 bytes long''))
      else (SystemUUID (Abs_uuidArray input), None))"

definition gocql_UUIDFromBytes :: "byte list \<Rightarrow> gocql_UUID \<times> error option" where
  "gocql_UUIDFromBytes input =
     (if length input \<noteq> 16
      then (GocqlUUID zeroArray, Some (CollaboratorError ''UUIDs must be exactly 16 bytes long''))
      else (GocqlUUID (Abs_uuidArray input), None))"

definition hexString :: string where
  "hexString = ''0123456789abcdef''"

definition hexByte :: "byte \<Rightarrow> string" where
  "hexByte b = [hexString ! (unat b div 16), hexString ! (unat b mod 16)]"

definition hexBytes :: "byte list \<Rightarrow> string" where
  "hexBytes bs = concat (map hexByte bs)"

definition canonicalText :: "byte list \<Rightarrow> string" where
  "canonicalText bs =
     hexBytes (take 4 bs) @ ''-'' @ hexBytes (take 2 (drop 4 bs)) @ ''-'' @
     hexBytes (take 2 (drop 6 bs)) @ ''-'' @ hexBytes (take 2 (drop 8 bs)) @ ''-'' @
     hexBytes (drop 10 bs)"

definition UUID_String :: "system_UUID \<Rightarrow> string" where
  "UUID_String uuid = canonicalText (UUID_Bytes uuid)"

text \<open>The two conversions of the data service; both drop the error of the conversion.\<close>

definition mapSystemUUIDToGocqlUUID :: "system_UUID \<Rightarrow> gocql_UUID" where
  "mapSystemUUIDToGocqlUUID uuid =
     (let (mappedUUID, _) = gocql_UUIDFromBytes (UUID_Bytes uuid) in mappedUUID)"

definition mapGocqlUUIDToSystemUUID :: "gocql_UUID \<Rightarrow> system_UUID" where
  "mapGocqlUUIDToSystemUUID uuid =
     (let (mappedUUID, _) = system_UUIDFromBytes (gocql_Bytes uuid) in mappedUUID)"

section \<open>The contract types\<close>

text \<open>
  Modelled from the spec: the structs \<^verbatim>\<open>contract.Tenant\<close> and \<^verbatim>\<open>contract.Application\<close>
  are not part of the sources. The service reads one field of each: a tenant has a secret
  key, an application has a name, both strings.
\<close>

record Tenant =
  SecretKey :: string

record Application =
  Name :: string

section \<open>The database behind the session\<close>

text \<open>
  The two tables hold rows; the primary key of \<^verbatim>\<open>tenant\<close> is \<^verbatim>\<open>tenant_id\<close>, the one of
  \<^verbatim>\<open>application\<close> is the pair \<^verbatim>\<open>(tenant_id, application_id)\<close>. Beside the tables the
  model keeps the list of statements the service has issued, oldest first, so that a
  theorem can say which statements a call sent.
\<close>

type_synonym tenantRow = "gocql_UUID \<times> string"

type_synonym applicationRow = "gocql_UUID \<times> gocql_UUID \<times> string"

text \<open>
  The seven statements of the service. An insert or delete binds driver identifiers, a
  select binds the textual form of the identifier.
\<close>

datatype statement =
    INSERT_tenant gocql_UUID string
  | SELECT_secret_key string
  | DELETE_tenant gocql_UUID
  | INSERT_application gocql_UUID gocql_UUID string
  | SELECT_name string string
  | SELECT_application_id_name string
  | DELETE_application gocql_UUID gocql_UUID

record database =
  tenantTable :: "tenantRow list"
  applicationTable :: "applicationRow list"
  issued :: "statement list"

definition emptyDatabase :: database where
  "emptyDatabase = \<lparr>tenantTable = [], applicationTable = [], issued = []\<rparr>"

fun isSelect :: "statement \<Rightarrow> bool" where
  "isSelect (SELECT_secret_key _) = True"
| "isSelect (SELECT_name _ _) = True"
| "isSelect (SELECT_application_id_name _) = True"
| "isSelect _ = False"

text \<open>
  A stored identifier matches a textual parameter when the parameter is its canonical
  text: the driver turns the text into the sixteen bytes it denotes.
\<close>

definition matchesText :: "gocql_UUID \<Rightarrow> string \<Rightarrow> bool" where
  "matchesText k s = (canonicalText (gocql_Bytes k) = s)"

text \<open>
  What a statement that the database has executed does to the tables. An insert on a
  key that is present overwrites the row (the storage engine has no separate update).
\<close>

fun applyStatement :: "statement \<Rightarrow> database \<Rightarrow> database" where
  "applyStatement (INSERT_tenant k v) db =
     db\<lparr>tenantTable := (k, v) # filter (\<lambda>r. fst r \<noteq> k) (tenantTable db)\<rparr>"
| "applyStatement (DELETE_tenant k) db =
     db\<lparr>tenantTable := filter (\<lambda>r. fst r \<noteq> k) (tenantTable db)\<rparr>"
| "applyStatement (INSERT_application t a n) db =
     db\<lparr>applicationTable :=
          (t, a, n) # filter (\<lambda>r. \<not> (fst r = t \<and> fst (snd r) = a)) (applicationTable db)\<rparr>"
| "applyStatement (DELETE_application t a) db =
     db\<lparr>applicationTable :=
          filter (\<lambda>r. \<not> (fst r = t \<and> fst (snd r) = a)) (applicationTable db)\<rparr>"
| "applyStatement (SELECT_secret_key _) db = db"
| "applyStatement (SELECT_name _ _) db = db"
| "applyStatement (SELECT_application_id_name _) db = db"

text \<open>
  A session is what \<^verbatim>\<open>CreateSession\<close> hands out. Each call of the service executes at
  most one mutating statement, so the session carries the fate of that statement: it is
  applied, or the driver reports a failure and the tables stay as they are. A select
  yields the rows whose key matches, in table order.
\<close>

datatype Session = Session (execFailure: "collaboratorFailure option")

definition Exec :: "Session \<Rightarrow> statement \<Rightarrow> database \<Rightarrow> error option \<times> database" where
  "Exec session stmt db =
     (let db' = db\<lparr>issued := issued db @ [stmt]\<rparr>
      in case execFailure session of
           Some err \<Rightarrow> (Some (CollaboratorError err), db')
         | None \<Rightarrow> (None, applyStatement stmt db'))"

definition Iter_secret_key :: "Session \<Rightarrow> string \<Rightarrow> database \<Rightarrow> string list \<times> database" where
  "Iter_secret_key session tenantText db =
     (map snd (filter (\<lambda>r. matchesText (fst r) tenantText) (tenantTable db)),
      db\<lparr>issued := issued db @ [SELECT_secret_key tenantText]\<rparr>)"

definition Iter_name ::
  "Session \<Rightarrow> string \<Rightarrow> string \<Rightarrow> database \<Rightarrow> string list \<times> database" where
  "Iter_name session tenantText applicationText db =
     (map (\<lambda>r. snd (snd r))
        (filter (\<lambda>r. matchesText (fst r) tenantText \<and> matchesText (fst (snd r)) applicationText)
           (applicationTable db)),
      db\<lparr>issued := issued db @ [SELECT_name tenantText applicationText]\<rparr>)"

definition Iter_application_id_name ::
  "Session \<Rightarrow> string \<Rightarrow> database \<Rightarrow> (gocql_UUID \<times> string) list \<times> database" where
  "Iter_application_id_name session tenantText db =
     (map snd (filter (\<lambda>r. matchesText (fst r) tenantText) (applicationTable db)),
      db\<lparr>issued := issued db @ [SELECT_application_id_name tenantText]\<rparr>)"

text \<open>\<^verbatim>\<open>iter.Scan\<close>: the next row when there is one, and the rows that remain.\<close>

fun Scan :: "'a list \<Rightarrow> 'a option \<times> 'a list" where
  "Scan [] = (None, [])"
| "Scan (row # rest) = (Some row, rest)"

section \<open>The data service\<close>

datatype uuidGenerator = Generator (GenerateRandomUUID: "collaboratorFailure + system_UUID")

datatype clusterConfig = Cluster (CreateSession: "collaboratorFailure + Session")

text \<open>The struct of the service; \<open>None\<close> is a nil collaborator.\<close>

record TenantDataService =
  UUIDGeneratorService :: "uuidGenerator option"
  ClusterConfig :: "clusterConfig option"

definition tenantNotFound :: "system_UUID \<Rightarrow> error" where
  "tenantNotFound tenantID = Errorf (''Tenant not found. Tenant ID: '' @ UUID_String tenantID)"

definition applicationNotFound :: "system_UUID \<Rightarrow> system_UUID \<Rightarrow> error" where
  "applicationNotFound tenantID applicationID =
     Errorf (''Tenant Application not found. Tenant ID: '' @ UUID_String tenantID @
             '', Application ID: '' @ UUID_String applicationID)"

definition addOrUpdateTenant ::
  "system_UUID \<Rightarrow> Tenant \<Rightarrow> Session \<Rightarrow> database \<Rightarrow> error option \<times> database" where
  "addOrUpdateTenant tenantID tenant session db =
     (let mappedTenantID = mapSystemUUIDToGocqlUUID tenantID
      in Exec session (INSERT_tenant mappedTenantID (SecretKey tenant)) db)"

definition readTenant ::
  "system_UUID \<Rightarrow> Session \<Rightarrow> database \<Rightarrow> (Tenant \<times> error option) \<times> database" where
  "readTenant tenantID session db =
     (let (iter, db') = Iter_secret_key session (UUID_String tenantID) db
      in case fst (Scan iter) of
           None \<Rightarrow> ((\<lparr>SecretKey = []\<rparr>, Some (tenantNotFound tenantID)), db')
         | Some secretKey \<Rightarrow> ((\<lparr>SecretKey = secretKey\<rparr>, None), db'))"

definition doesTenantExist :: "system_UUID \<Rightarrow> Session \<Rightarrow> database \<Rightarrow> bool \<times> database" where
  "doesTenantExist tenantID session db =
     (let (iter, db') = Iter_secret_key session (UUID_String tenantID) db
      in (fst (Scan iter) \<noteq> None, db'))"

definition addOrUpdateApplication ::
  "system_UUID \<Rightarrow> system_UUID \<Rightarrow> Application \<Rightarrow> Session \<Rightarrow> database
     \<Rightarrow> error option \<times> database" where
  "addOrUpdateApplication tenantID applicationID application session db =
     (let mappedTenantID = mapSystemUUIDToGocqlUUID tenantID;
          mappedApplicationID = mapSystemUUIDToGocqlUUID applicationID
      in Exec session
           (INSERT_application mappedTenantID mappedApplicationID (Name application)) db)"

definition readApplication ::
  "system_UUID \<Rightarrow> system_UUID \<Rightarrow> Session \<Rightarrow> database
     \<Rightarrow> (Application \<times> error option) \<times> database" where
  "readApplication tenantID applicationID session db =
     (let (iter, db') =
            Iter_name session (UUID_String tenantID) (UUID_String applicationID) db
      in case fst (Scan iter) of
           None \<Rightarrow>
             ((\<lparr>Name = []\<rparr>, Some (applicationNotFound tenantID applicationID)), db')
         | Some name \<Rightarrow> ((\<lparr>Name = name\<rparr>, None), db'))"

text \<open>
  The loop of \<^verbatim>\<open>readAllApplications\<close>: while \<^verbatim>\<open>iter.Scan\<close> yields a row, one map
  entry is written for it; the loop ends when the rows are used up.
\<close>

fun scanApplications ::
  "(gocql_UUID \<times> string) list \<Rightarrow> (system_UUID \<rightharpoonup> Application)
     \<Rightarrow> (system_UUID \<rightharpoonup> Application)" where
  "scanApplications [] applications = applications"
| "scanApplications ((applicationID, name) # rest) applications =
     scanApplications rest
       (applications(mapGocqlUUIDToSystemUUID applicationID \<mapsto> \<lparr>Name = name\<rparr>))"

definition readAllApplications ::
  "system_UUID \<Rightarrow> Session \<Rightarrow> database \<Rightarrow> (system_UUID \<rightharpoonup> Application) \<times> database" where
  "readAllApplications tenantID session db =
     (let (iter, db') = Iter_application_id_name session (UUID_String tenantID) db
      in (scanApplications iter Map.empty, db'))"

definition doesApplicationExist ::
  "system_UUID \<Rightarrow> system_UUID \<Rightarrow> Session \<Rightarrow> database \<Rightarrow> bool \<times> database" where
  "doesApplicationExist tenantID applicationID session db =
     (let (iter, db') =
            Iter_name session (UUID_String tenantID) (UUID_String applicationID) db
      in (fst (Scan iter) \<noteq> None, db'))"

section \<open>The nine operations\<close>

text \<open>
  Each operation takes the service, its arguments and the database, and gives back what
  the Go method returns together with the database afterwards. \<^verbatim>\<open>diagnostics.IsNotNil\<close>
  panics on a nil collaborator; the operations without that check panic as well, when they
  call \<^verbatim>\<open>CreateSession\<close> on the nil configuration. The deferred \<^verbatim>\<open>session.Close\<close> touches
  neither the tables nor the result.
\<close>

definition CreateTenant ::
  "TenantDataService \<Rightarrow> Tenant \<Rightarrow> database
     \<Rightarrow> (system_UUID \<times> error option) outcome \<times> database" where
  "CreateTenant tenantDataService tenant db =
     (case UUIDGeneratorService tenantDataService of
        None \<Rightarrow> (Panic ''UUIDGeneratorService must be provided.'', db)
      | Some generator \<Rightarrow>
     (case ClusterConfig tenantDataService of
        None \<Rightarrow> (Panic ''ClusterConfig must be provided.'', db)
      | Some cluster \<Rightarrow>
     (case GenerateRandomUUID generator of
        Inl err \<Rightarrow> (Return (EmptyUUID, Some (CollaboratorError err)), db)
      | Inr tenantID \<Rightarrow>
     (case CreateSession cluster of
        Inl err \<Rightarrow> (Return (EmptyUUID, Some (CollaboratorError err)), db)
      | Inr session \<Rightarrow>
          (let (err, db') = addOrUpdateTenant tenantID tenant session db
           in (Return (tenantID, err), db'))))))"

definition UpdateTenant ::
  "TenantDataService \<Rightarrow> system_UUID \<Rightarrow> Tenant \<Rightarrow> database
     \<Rightarrow> error option outcome \<times> database" where
  "UpdateTenant tenantDataService tenantID tenant db =
     (case ClusterConfig tenantDataService of
        None \<Rightarrow> (Panic ''ClusterConfig must be provided.'', db)
      | Some cluster \<Rightarrow>
     (case CreateSession cluster of
        Inl err \<Rightarrow> (Return (Some (CollaboratorError err)), db)
      | Inr session \<Rightarrow>
          (let (found, db') = doesTenantExist tenantID session db
           in if \<not> found then (Return (Some (tenantNotFound tenantID)), db')
              else (let (err, db'') = addOrUpdateTenant tenantID tenant session db'
                    in (Return err, db'')))))"

definition ReadTenant ::
  "TenantDataService \<Rightarrow> system_UUID \<Rightarrow> database
     \<Rightarrow> (Tenant \<times> error option) outcome \<times> database" where
  "ReadTenant tenantDataService tenantID db =
     (case ClusterConfig tenantDataService of
        None \<Rightarrow> (Panic ''ClusterConfig must be provided.'', db)
      | Some cluster \<Rightarrow>
     (case CreateSession cluster of
        Inl err \<Rightarrow> (Return (\<lparr>SecretKey = []\<rparr>, Some (CollaboratorError err)), db)
      | Inr session \<Rightarrow>
          (let (result, db') = readTenant tenantID session db
           in (Return result, db'))))"

definition DeleteTenant ::
  "TenantDataService \<Rightarrow> system_UUID \<Rightarrow> database \<Rightarrow> error option outcome \<times> database" where
  "DeleteTenant tenantDataService tenantID db =
     (case ClusterConfig tenantDataService of
        None \<Rightarrow> (Panic ''ClusterConfig must be provided.'', db)
      | Some cluster \<Rightarrow>
     (case CreateSession cluster of
        Inl err \<Rightarrow> (Return (Some (CollaboratorError err)), db)
      | Inr session \<Rightarrow>
          (let (found, db') = doesTenantExist tenantID session db
           in if \<not> found then (Return (Some (tenantNotFound tenantID)), db')
              else (let mappedTenantID = mapSystemUUIDToGocqlUUID tenantID;
                        (err, db'') = Exec session (DELETE_tenant mappedTenantID) db'
                    in (Return err, db'')))))"

definition CreateApplication ::
  "TenantDataService \<Rightarrow> system_UUID \<Rightarrow> Application \<Rightarrow> database
     \<Rightarrow> (system_UUID \<times> error option) outcome \<times> database" where
  "CreateApplication tenantDataService tenantID application db =
     (case UUIDGeneratorService tenantDataService of
        None \<Rightarrow> (Panic ''UUIDGeneratorService must be provided.'', db)
      | Some generator \<Rightarrow>
     (case ClusterConfig tenantDataService of
        None \<Rightarrow> (Panic ''ClusterConfig must be provided.'', db)
      | Some cluster \<Rightarrow>
     (case CreateSession cluster of
        Inl err \<Rightarrow> (Return (EmptyUUID, Some (CollaboratorError err)), db)
      | Inr session \<Rightarrow>
          (let (found, db') = doesTenantExist tenantID session db
           in if \<not> found then (Return (EmptyUUID, Some (tenantNotFound tenantID)), db')
              else (case GenerateRandomUUID generator of
                      Inl err \<Rightarrow> (Return (EmptyUUID, Some (CollaboratorError err)), db')
                    | Inr applicationID \<Rightarrow>
                        (let (err, db'') =
                               addOrUpdateApplication tenantID applicationID application
                                 session db'
                         in (Return (applicationID, err), db'')))))))"

definition UpdateApplication ::
  "TenantDataService \<Rightarrow> system_UUID \<Rightarrow> system_UUID \<Rightarrow> Application \<Rightarrow> database
     \<Rightarrow> error option outcome \<times> database" where
  "UpdateApplication tenantDataService tenantID applicationID application db =
     (case ClusterConfig tenantDataService of
        None \<Rightarrow> (Panic ''nil pointer dereference'', db)
      | Some cluster \<Rightarrow>
     (case CreateSession cluster of
        Inl err \<Rightarrow> (Return (Some (CollaboratorError err)), db)
      | Inr session \<Rightarrow>
          (let (found, db') = doesTenantExist tenantID session db
           in if \<not> found then (Return (Some (tenantNotFound tenantID)), db')
              else (let (foundApplication, db'') =
                          doesApplicationExist tenantID applicationID session db'
                    in if \<not> foundApplication
                       then (Return (Some (applicationNotFound tenantID applicationID)), db'')
                       else (let (err, db''') =
                                   addOrUpdateApplication tenantID applicationID application
                                     session db''
                             in (Return err, db'''))))))"

definition ReadApplication ::
  "TenantDataService \<Rightarrow> system_UUID \<Rightarrow> system_UUID \<Rightarrow> database
     \<Rightarrow> (Application \<times> error option) outcome \<times> database" where
  "ReadApplication tenantDataService tenantID applicationID db =
     (case ClusterConfig tenantDataService of
        None \<Rightarrow> (Panic ''nil pointer dereference'', db)
      | Some cluster \<Rightarrow>
     (case CreateSession cluster of
        Inl err \<Rightarrow> (Return (\<lparr>Name = []\<rparr>, Some (CollaboratorError err)), db)
      | Inr session \<Rightarrow>
          (let (found, db') = doesTenantExist tenantID session db
           in if \<not> found
              then (Return (\<lparr>Name = []\<rparr>, Some (tenantNotFound tenantID)), db')
              else (let (result, db'') = readApplication tenantID applicationID session db'
                    in (Return result, db'')))))"

text \<open>The nil map that is returned beside an error reads as the empty map.\<close>

definition ReadAllApplications ::
  "TenantDataService \<Rightarrow> system_UUID \<Rightarrow> database
     \<Rightarrow> ((system_UUID \<rightharpoonup> Application) \<times> error option) outcome \<times> database" where
  "ReadAllApplications tenantDataService tenantID db =
     (case ClusterConfig tenantDataService of
        None \<Rightarrow> (Panic ''nil pointer dereference'', db)
      | Some cluster \<Rightarrow>
     (case CreateSession cluster of
        Inl err \<Rightarrow> (Return (Map.empty, Some (CollaboratorError err)), db)
      | Inr session \<Rightarrow>
          (let (found, db') = doesTenantExist tenantID session db
           in if \<not> found then (Return (Map.empty, Some (tenantNotFound tenantID)), db')
              else (let (applications, db'') = readAllApplications tenantID session db'
                    in (Return (applications, None), db'')))))"

definition DeleteApplication ::
  "TenantDataService \<Rightarrow> system_UUID \<Rightarrow> system_UUID \<Rightarrow> database
     \<Rightarrow> error option outcome \<times> database" where
  "DeleteApplication tenantDataService tenantID applicationID db =
     (case ClusterConfig tenantDataService of
        None \<Rightarrow> (Panic ''nil pointer dereference'', db)
      | Some cluster \<Rightarrow>
     (case CreateSession cluster of
        Inl err \<Rightarrow> (Return (Some (CollaboratorError err)), db)
      | Inr session \<Rightarrow>
          (let (found, db') = doesTenantExist tenantID session db
           in if \<not> found then (Return (Some (tenantNotFound tenantID)), db')
              else (let (foundApplication, db'') =
                          doesApplicationExist tenantID applicationID session db'
                    in if \<not> foundApplication
                       then (Return (Some (applicationNotFound tenantID applicationID)), db'')
                       else (let mappedTenantID = mapSystemUUIDToGocqlUUID tenantID;
                                 mappedApplicationID = mapSystemUUIDToGocqlUUID applicationID;
                                 (err, db''') =
                                   Exec session
                                     (DELETE_application mappedTenantID mappedApplicationID) db''
                             in (Return err, db'''))))))"

section \<open>Calls and the states they reach\<close>

datatype operation =
    OpCreateTenant Tenant
  | OpUpdateTenant system_UUID Tenant
  | OpReadTenant system_UUID
  | OpDeleteTenant system_UUID
  | OpCreateApplication system_UUID Application
  | OpUpdateApplication system_UUID system_UUID Application
  | OpReadApplication system_UUID system_UUID
  | OpReadAllApplications system_UUID
  | OpDeleteApplication system_UUID system_UUID

text \<open>The error of a result pair, the value dropped.\<close>

fun failure :: "('a \<times> error option) outcome \<Rightarrow> error option outcome" where
  "failure (Panic m) = Panic m"
| "failure (Return (v, err)) = Return err"

fun perform ::
  "TenantDataService \<Rightarrow> operation \<Rightarrow> database \<Rightarrow> error option outcome \<times> database" where
  "perform svc (OpCreateTenant t) db = apfst failure (CreateTenant svc t db)"
| "perform svc (OpUpdateTenant i t) db = UpdateTenant svc i t db"
| "perform svc (OpReadTenant i) db = apfst failure (ReadTenant svc i db)"
| "perform svc (OpDeleteTenant i) db = DeleteTenant svc i db"
| "perform svc (OpCreateApplication i a) db = apfst failure (CreateApplication svc i a db)"
| "perform svc (OpUpdateApplication i j a) db = UpdateApplication svc i j a db"
| "perform svc (OpReadApplication i j) db = apfst failure (ReadApplication svc i j db)"
| "perform svc (OpReadAllApplications i) db = apfst failure (ReadAllApplications svc i db)"
| "perform svc (OpDeleteApplication i j) db = DeleteApplication svc i j db"

text \<open>
  A run is a list of calls, each with the service as it stands at that call (its
  generator yields a new identifier each time); the reachable states are the runs from
  the empty database.
\<close>

fun run :: "(TenantDataService \<times> operation) list \<Rightarrow> database \<Rightarrow> database" where
  "run [] db = db"
| "run ((svc, op) # calls) db = run calls (snd (perform svc op db))"

fun isDeleteTenant :: "operation \<Rightarrow> bool" where
  "isDeleteTenant (OpDeleteTenant _) = True"
| "isDeleteTenant _ = False"

fun tenantIDOf :: "operation \<Rightarrow> system_UUID option" where
  "tenantIDOf (OpCreateTenant _) = None"
| "tenantIDOf (OpUpdateTenant i _) = Some i"
| "tenantIDOf (OpReadTenant i) = Some i"
| "tenantIDOf (OpDeleteTenant i) = Some i"
| "tenantIDOf (OpCreateApplication i _) = Some i"
| "tenantIDOf (OpUpdateApplication i _ _) = Some i"
| "tenantIDOf (OpReadApplication i _) = Some i"
| "tenantIDOf (OpReadAllApplications i) = Some i"
| "tenantIDOf (OpDeleteApplication i _) = Some i"

fun applicationIDOf :: "operation \<Rightarrow> system_UUID option" where
  "applicationIDOf (OpUpdateApplication _ j _) = Some j"
| "applicationIDOf (OpReadApplication _ j) = Some j"
| "applicationIDOf (OpDeleteApplication _ j) = Some j"
| "applicationIDOf _ = None"

section \<open>Properties of a database\<close>

text \<open>The rows stored under a key.\<close>

definition tenantRows :: "system_UUID \<Rightarrow> database \<Rightarrow> tenantRow list" where
  "tenantRows tenantID db =
     filter (\<lambda>r. fst r = mapSystemUUIDToGocqlUUID tenantID) (tenantTable db)"

definition applicationRows ::
  "system_UUID \<Rightarrow> system_UUID \<Rightarrow> database \<Rightarrow> applicationRow list" where
  "applicationRows tenantID applicationID db =
     filter (\<lambda>r. fst r = mapSystemUUIDToGocqlUUID tenantID \<and>
                 fst (snd r) = mapSystemUUIDToGocqlUUID applicationID) (applicationTable db)"

text \<open>No application row without a tenant row for its tenant identifier.\<close>

definition referentialIntegrity :: "database \<Rightarrow> bool" where
  "referentialIntegrity db =
     list_all (\<lambda>r. fst r \<in> set (map fst (tenantTable db))) (applicationTable db)"

text \<open>A table holds at most one row for a primary key.\<close>

definition primaryKeyUnique :: "database \<Rightarrow> bool" where
  "primaryKeyUnique db =
     (distinct (map fst (tenantTable db)) \<and>
      distinct (map (\<lambda>r. (fst r, fst (snd r))) (applicationTable db)))"

text \<open>The statements issued since an earlier state of the database.\<close>

definition issuedSince :: "database \<Rightarrow> database \<Rightarrow> statement list" where
  "issuedSince db db' = drop (length (issued db)) (issued db')"

text \<open>
  What holds of a call \<open>op\<close> that has taken the database from \<open>db\<close> to \<open>db'\<close> and
  returned a not-found error with the given message.
\<close>

definition notFoundOutcome :: "operation \<Rightarrow> database \<Rightarrow> string \<Rightarrow> database \<Rightarrow> bool" where
  "notFoundOutcome op db message db' \<longleftrightarrow>
     tenantTable db' = tenantTable db \<and> applicationTable db' = applicationTable db \<and>
     list_all isSelect (issuedSince db db') \<and>
     (\<exists>tenantID. tenantIDOf op = Some tenantID \<and>
        (message = ''Tenant not found. Tenant ID: '' @ UUID_String tenantID \<or>
         (\<exists>applicationID. applicationIDOf op = Some applicationID \<and>
            message = ''Tenant Application not found. Tenant ID: '' @ UUID_String tenantID @
                      '', Application ID: '' @ UUID_String applicationID)))"

section \<open>Identifiers: conversions and the canonical text\<close>

lemma length_Rep_uuidArray: "length (Rep_uuidArray a) = 16"
  using Rep_uuidArray [of a] by simp

lemma mapSystemUUIDToGocqlUUID_SystemUUID:
  "mapSystemUUIDToGocqlUUID (SystemUUID a) = GocqlUUID a"
  by (simp add: mapSystemUUIDToGocqlUUID_def gocql_UUIDFromBytes_def length_Rep_uuidArray
      Rep_uuidArray_inverse)

lemma mapGocqlUUIDToSystemUUID_GocqlUUID:
  "mapGocqlUUIDToSystemUUID (GocqlUUID a) = SystemUUID a"
  by (simp add: mapGocqlUUIDToSystemUUID_def system_UUIDFromBytes_def length_Rep_uuidArray
      Rep_uuidArray_inverse)

text \<open>The canonical text determines the sixteen bytes.\<close>

lemma hexString_inj:
  assumes "i < 16" "j < 16" "hexString ! i = hexString ! j"
  shows "i = j"
proof -
  have d: "distinct hexString" by (simp add: hexString_def)
  have l: "length hexString = 16" by (simp add: hexString_def)
  from assms d l show ?thesis by (simp add: nth_eq_iff_index_eq)
qed

lemma hexByte_inj:
  assumes "hexByte a = hexByte b"
  shows "a = b"
proof -
  have la: "unat a < 256" and lb: "unat b < 256"
    using unsigned_less [of a] unsigned_less [of b] by simp_all
  from assms have h1: "hexString ! (unat a div 16) = hexString ! (unat b div 16)"
    and h2: "hexString ! (unat a mod 16) = hexString ! (unat b mod 16)"
    by (simp_all add: hexByte_def)
  have "unat a div 16 = unat b div 16"
    using la lb h1 by (intro hexString_inj) auto
  moreover have "unat a mod 16 = unat b mod 16"
    using h2 by (intro hexString_inj) auto
  ultimately have "unat a = unat b"
    by (metis div_mult_mod_eq)
  then show ?thesis by (rule word_unat_eq_iff [THEN iffD2])
qed

lemma length_hexBytes: "length (hexBytes bs) = 2 * length bs"
  by (induction bs) (simp_all add: hexBytes_def hexByte_def)

lemma hexBytes_inj:
  "length xs = length ys \<Longrightarrow> hexBytes xs = hexBytes ys \<Longrightarrow> xs = ys"
proof (induction xs ys rule: list_induct2)
  case Nil
  then show ?case by simp
next
  case (Cons x xs y ys)
  from Cons.prems have "hexByte x @ hexBytes xs = hexByte y @ hexBytes ys"
    by (simp add: hexBytes_def)
  moreover have "length (hexByte x) = length (hexByte y)"
    by (simp add: hexByte_def)
  ultimately have "hexByte x = hexByte y" and "hexBytes xs = hexBytes ys"
    by simp_all
  with Cons.IH show ?case by (simp add: hexByte_inj)
qed

lemma five_groups:
  fixes bs :: "byte list"
  shows "take 4 bs @ take 2 (drop 4 bs) @ take 2 (drop 6 bs) @ take 2 (drop 8 bs) @ drop 10 bs = bs"
proof -
  have "take 4 bs @ take 2 (drop 4 bs) @ take 2 (drop 6 bs) @ take 2 (drop 8 bs) @ drop 10 bs
      = take 4 bs @ take 2 (drop 4 bs) @ take 2 (drop 6 bs) @ drop 8 bs"
    using append_take_drop_id [of 2 "drop 8 bs"] by (simp del: append_take_drop_id)
  also have "\<dots> = take 4 bs @ take 2 (drop 4 bs) @ drop 6 bs"
    using append_take_drop_id [of 2 "drop 6 bs"] by (simp del: append_take_drop_id)
  also have "\<dots> = take 4 bs @ drop 4 bs"
    using append_take_drop_id [of 2 "drop 4 bs"] by (simp del: append_take_drop_id)
  finally show ?thesis by simp
qed

lemma canonicalText_inj:
  assumes "length xs = 16" "length ys = 16" "canonicalText xs = canonicalText ys"
  shows "xs = ys"
proof -
  let ?a = "\<lambda>bs::byte list. take 4 bs" and ?b = "\<lambda>bs::byte list. take 2 (drop 4 bs)"
  let ?c = "\<lambda>bs::byte list. take 2 (drop 6 bs)" and ?d = "\<lambda>bs::byte list. take 2 (drop 8 bs)"
  let ?e = "\<lambda>bs::byte list. drop 10 bs"
  from assms(3) have e0: "hexBytes (?a xs) @ (''-'' @ hexBytes (?b xs) @ ''-'' @ hexBytes (?c xs) @ ''-'' @ hexBytes (?d xs) @ ''-'' @ hexBytes (?e xs))
     = hexBytes (?a ys) @ (''-'' @ hexBytes (?b ys) @ ''-'' @ hexBytes (?c ys) @ ''-'' @ hexBytes (?d ys) @ ''-'' @ hexBytes (?e ys))"
    by (simp add: canonicalText_def)
  have la: "length (hexBytes (?a xs)) = length (hexBytes (?a ys))"
    using assms by (simp add: length_hexBytes)
  from e0 la have a: "hexBytes (?a xs) = hexBytes (?a ys)"
    and e1: "hexBytes (?b xs) @ (''-'' @ hexBytes (?c xs) @ ''-'' @ hexBytes (?d xs) @ ''-'' @ hexBytes (?e xs))
     = hexBytes (?b ys) @ (''-'' @ hexBytes (?c ys) @ ''-'' @ hexBytes (?d ys) @ ''-'' @ hexBytes (?e ys))"
    by simp_all
  have lb: "length (hexBytes (?b xs)) = length (hexBytes (?b ys))"
    using assms by (simp add: length_hexBytes)
  from e1 lb have b: "hexBytes (?b xs) = hexBytes (?b ys)"
    and e2: "hexBytes (?c xs) @ (''-'' @ hexBytes (?d xs) @ ''-'' @ hexBytes (?e xs))
     = hexBytes (?c ys) @ (''-'' @ hexBytes (?d ys) @ ''-'' @ hexBytes (?e ys))"
    by simp_all
  have lc: "length (hexBytes (?c xs)) = length (hexBytes (?c ys))"
    using assms by (simp add: length_hexBytes)
  from e2 lc have c: "hexBytes (?c xs) = hexBytes (?c ys)"
    and e3: "hexBytes (?d xs) @ (''-'' @ hexBytes (?e xs))
     = hexBytes (?d ys) @ (''-'' @ hexBytes (?e ys))"
    by simp_all
  have ld: "length (hexBytes (?d xs)) = length (hexBytes (?d ys))"
    using assms by (simp add: length_hexBytes)
  from e3 ld have d: "hexBytes (?d xs) = hexBytes (?d ys)"
    and e: "hexBytes (?e xs) = hexBytes (?e ys)"
    by simp_all
  have A: "?a xs = ?a ys" using a assms by (intro hexBytes_inj) simp_all
  have B: "?b xs = ?b ys" using b assms by (intro hexBytes_inj) simp_all
  have C: "?c xs = ?c ys" using c assms by (intro hexBytes_inj) simp_all
  have D: "?d xs = ?d ys" using d assms by (intro hexBytes_inj) simp_all
  have E: "?e xs = ?e ys" using e assms by (intro hexBytes_inj) simp_all
  have "xs = ?a xs @ ?b xs @ ?c xs @ ?d xs @ ?e xs" by (rule five_groups [symmetric])
  also have "\<dots> = ?a ys @ ?b ys @ ?c ys @ ?d ys @ ?e ys" by (simp only: A B C D E)
  also have "\<dots> = ys" by (rule five_groups)
  finally show ?thesis .
qed

lemma matchesText_UUID_String:
  "matchesText k (UUID_String i) \<longleftrightarrow> k = mapSystemUUIDToGocqlUUID i"
proof (cases k; cases i)
  fix a b
  assume k: "k = GocqlUUID a" and i: "i = SystemUUID b"
  have "canonicalText (Rep_uuidArray a) = canonicalText (Rep_uuidArray b) \<longleftrightarrow> a = b"
    using canonicalText_inj [of "Rep_uuidArray a" "Rep_uuidArray b"]
    by (auto simp: length_Rep_uuidArray Rep_uuidArray_inject)
  then show ?thesis
    by (simp add: k i matchesText_def UUID_String_def mapSystemUUIDToGocqlUUID_SystemUUID)
qed

section \<open>What the queries of the service return\<close>

lemma Iter_secret_key_UUID_String:
  "Iter_secret_key session (UUID_String i) db =
     (map snd (tenantRows i db), db\<lparr>issued := issued db @ [SELECT_secret_key (UUID_String i)]\<rparr>)"
  by (simp add: Iter_secret_key_def tenantRows_def matchesText_UUID_String)

lemma Iter_name_UUID_String:
  "Iter_name session (UUID_String i) (UUID_String j) db =
     (map (\<lambda>r. snd (snd r)) (applicationRows i j db),
      db\<lparr>issued := issued db @ [SELECT_name (UUID_String i) (UUID_String j)]\<rparr>)"
  by (simp add: Iter_name_def applicationRows_def matchesText_UUID_String)

lemma fst_Scan_eq_None: "fst (Scan rows) = None \<longleftrightarrow> rows = []"
  by (cases rows) simp_all

lemma doesTenantExist_eq:
  "doesTenantExist i session db =
     (tenantRows i db \<noteq> [], db\<lparr>issued := issued db @ [SELECT_secret_key (UUID_String i)]\<rparr>)"
  by (simp add: doesTenantExist_def Iter_secret_key_UUID_String fst_Scan_eq_None)

lemma doesApplicationExist_eq:
  "doesApplicationExist i j session db =
     (applicationRows i j db \<noteq> [],
      db\<lparr>issued := issued db @ [SELECT_name (UUID_String i) (UUID_String j)]\<rparr>)"
  by (simp add: doesApplicationExist_def Iter_name_UUID_String fst_Scan_eq_None)

lemma readTenant_eq:
  "readTenant i session db =
     ((case tenantRows i db of
         [] \<Rightarrow> (\<lparr>SecretKey = []\<rparr>, Some (tenantNotFound i))
       | r # _ \<Rightarrow> (\<lparr>SecretKey = snd r\<rparr>, None)),
      db\<lparr>issued := issued db @ [SELECT_secret_key (UUID_String i)]\<rparr>)"
  by (cases "tenantRows i db") (simp_all add: readTenant_def Iter_secret_key_UUID_String)

lemma readApplication_eq:
  "readApplication i j session db =
     ((case applicationRows i j db of
         [] \<Rightarrow> (\<lparr>Name = []\<rparr>, Some (applicationNotFound i j))
       | r # _ \<Rightarrow> (\<lparr>Name = snd (snd r)\<rparr>, None)),
      db\<lparr>issued := issued db @ [SELECT_name (UUID_String i) (UUID_String j)]\<rparr>)"
  by (cases "applicationRows i j db") (simp_all add: readApplication_def Iter_name_UUID_String)

lemma tenantRows_issued [simp]: "tenantRows i (db\<lparr>issued := l\<rparr>) = tenantRows i db"
  by (simp add: tenantRows_def)

lemma applicationRows_issued [simp]:
  "applicationRows i j (db\<lparr>issued := l\<rparr>) = applicationRows i j db"
  by (simp add: applicationRows_def)

section \<open>The conversions between the two identifier types\<close>

text \<open>
  Claim C10. Converting a system identifier to a driver identifier and back gives the
  identifier started from, and the sixteen raw bytes are the same at every stage: in the
  driver identifier and in the identifier converted back.
\<close>

theorem uuid_conversion_round_trip:
  "mapGocqlUUIDToSystemUUID (mapSystemUUIDToGocqlUUID uuid) = uuid \<and>
   gocql_Bytes (mapSystemUUIDToGocqlUUID uuid) = UUID_Bytes uuid \<and>
   UUID_Bytes (mapGocqlUUIDToSystemUUID (mapSystemUUIDToGocqlUUID uuid)) = UUID_Bytes uuid"
  by (cases uuid)
    (simp add: mapSystemUUIDToGocqlUUID_SystemUUID mapGocqlUUIDToSystemUUID_GocqlUUID)

section \<open>Creation when the insert fails\<close>

text \<open>
  Claim C9. When the generator yields an identifier and the session is created, but the
  insert statement fails with a failure \<open>e\<close>, \<^verbatim>\<open>CreateTenant\<close> returns the generated
  identifier together with that failure, and so does \<^verbatim>\<open>CreateApplication\<close> for a tenant
  that has a row (the insert is reached only past the tenant check).
\<close>

theorem create_returns_generated_id_with_insert_error:
  assumes "UUIDGeneratorService svc = Some (Generator (Inr newID))"
    and "ClusterConfig svc = Some (Cluster (Inr (Session (Some e))))"
  shows "fst (CreateTenant svc tenant db) = Return (newID, Some (CollaboratorError e)) \<and>
         (tenantRows tenantID db \<noteq> [] \<longrightarrow>
            fst (CreateApplication svc tenantID application db)
              = Return (newID, Some (CollaboratorError e)))"
  using assms
  by (simp add: CreateTenant_def CreateApplication_def addOrUpdateTenant_def
      addOrUpdateApplication_def Exec_def doesTenantExist_eq)

theorem create_returns_generated_id_with_insert_error_witness:
  "(let svc = \<lparr>UUIDGeneratorService = Some (Generator (Inr (SystemUUID (Abs_uuidArray (replicate 15 0 @ [7]))))),
               ClusterConfig = Some (Cluster (Inr (Session (Some ''write timeout''))))\<rparr>;
        db = \<lparr>tenantTable = [(GocqlUUID zeroArray, ''s3cr3t'')], applicationTable = [], issued = []\<rparr>
    in UUIDGeneratorService svc = Some (Generator (Inr (SystemUUID (Abs_uuidArray (replicate 15 0 @ [7]))))) \<and>
       ClusterConfig svc = Some (Cluster (Inr (Session (Some ''write timeout'')))) \<and>
       tenantRows EmptyUUID db \<noteq> [] \<and>
       fst (CreateTenant svc \<lparr>SecretKey = ''k''\<rparr> db)
         = Return (SystemUUID (Abs_uuidArray (replicate 15 0 @ [7])), Some (CollaboratorError ''write timeout'')) \<and>
       fst (CreateApplication svc EmptyUUID \<lparr>Name = ''billing''\<rparr> db)
         = Return (SystemUUID (Abs_uuidArray (replicate 15 0 @ [7])), Some (CollaboratorError ''write timeout'')))"
  using create_returns_generated_id_with_insert_error
    [where svc = "\<lparr>UUIDGeneratorService = Some (Generator (Inr (SystemUUID (Abs_uuidArray (replicate 15 0 @ [7]))))),
               ClusterConfig = Some (Cluster (Inr (Session (Some ''write timeout''))))\<rparr>"
       and newID = "SystemUUID (Abs_uuidArray (replicate 15 0 @ [7]))" and e = "''write timeout''"
       and tenantID = EmptyUUID
       and db = "\<lparr>tenantTable = [(GocqlUUID zeroArray, ''s3cr3t'')], applicationTable = [], issued = []\<rparr>"
       and tenant = "\<lparr>SecretKey = ''k''\<rparr>" and application = "\<lparr>Name = ''billing''\<rparr>"]
  by (simp add: tenantRows_def EmptyUUID_def mapSystemUUIDToGocqlUUID_SystemUUID)

section \<open>Tenant operations on an absent tenant\<close>

text \<open>
  Claim C3. For a tenant identifier with no tenant row, \<^verbatim>\<open>ReadTenant\<close>, \<^verbatim>\<open>UpdateTenant\<close>
  (with any tenant record) and \<^verbatim>\<open>DeleteTenant\<close> each fail with the tenant-not-found error
  for that identifier, in every call that obtains its session.
\<close>

theorem absent_tenant_not_found:
  assumes "tenantRows tenantID db = []"
    and "ClusterConfig svc = Some (Cluster (Inr session))"
  shows "fst (ReadTenant svc tenantID db)
           = Return (\<lparr>SecretKey = []\<rparr>,
               Some (Errorf (''Tenant not found. Tenant ID: '' @ UUID_String tenantID))) \<and>
         fst (UpdateTenant svc tenantID tenant db)
           = Return (Some (Errorf (''Tenant not found. Tenant ID: '' @ UUID_String tenantID))) \<and>
         fst (DeleteTenant svc tenantID db)
           = Return (Some (Errorf (''Tenant not found. Tenant ID: '' @ UUID_String tenantID)))"
  using assms
  by (simp add: ReadTenant_def UpdateTenant_def DeleteTenant_def readTenant_eq
      doesTenantExist_eq tenantNotFound_def)

theorem absent_tenant_not_found_witness:
  "tenantRows EmptyUUID emptyDatabase = [] \<and>
   ClusterConfig \<lparr>UUIDGeneratorService = None, ClusterConfig = Some (Cluster (Inr (Session None)))\<rparr>
     = Some (Cluster (Inr (Session None))) \<and>
   fst (ReadTenant \<lparr>UUIDGeneratorService = None, ClusterConfig = Some (Cluster (Inr (Session None)))\<rparr>
          EmptyUUID emptyDatabase)
     = Return (\<lparr>SecretKey = []\<rparr>,
         Some (Errorf ''Tenant not found. Tenant ID: 00000000-0000-0000-0000-000000000000'')) \<and>
   fst (UpdateTenant \<lparr>UUIDGeneratorService = None, ClusterConfig = Some (Cluster (Inr (Session None)))\<rparr>
          EmptyUUID \<lparr>SecretKey = ''k''\<rparr> emptyDatabase)
     = Return (Some (Errorf ''Tenant not found. Tenant ID: 00000000-0000-0000-0000-000000000000'')) \<and>
   fst (DeleteTenant \<lparr>UUIDGeneratorService = None, ClusterConfig = Some (Cluster (Inr (Session None)))\<rparr>
          EmptyUUID emptyDatabase)
     = Return (Some (Errorf ''Tenant not found. Tenant ID: 00000000-0000-0000-0000-000000000000''))"
proof -
  have absent: "tenantRows EmptyUUID emptyDatabase = []"
    by (simp add: tenantRows_def emptyDatabase_def)
  have canonical: "UUID_String EmptyUUID = ''00000000-0000-0000-0000-000000000000''"
    by (simp add: UUID_String_def EmptyUUID_def zeroArray_def Abs_uuidArray_inverse
        canonicalText_def hexBytes_def hexByte_def hexString_def)
      (simp add: eval_nat_numeral)
  show ?thesis
    using absent_tenant_not_found
      [where tenantID = EmptyUUID and db = emptyDatabase
         and svc = "\<lparr>UUIDGeneratorService = None, ClusterConfig = Some (Cluster (Inr (Session None)))\<rparr>"
         and session = "Session None" and tenant = "\<lparr>SecretKey = ''k''\<rparr>", OF absent]
    by (simp add: canonical absent)
qed

section \<open>Creating a tenant and reading it back\<close>

lemma CreateTenant_success:
  assumes "CreateTenant svc tenant db = (Return (tenantID, None), db')"
  shows "db' = applyStatement (INSERT_tenant (mapSystemUUIDToGocqlUUID tenantID) (SecretKey tenant))
                 (db\<lparr>issued := issued db @
                    [INSERT_tenant (mapSystemUUIDToGocqlUUID tenantID) (SecretKey tenant)]\<rparr>)"
  using assms
  by (auto simp: CreateTenant_def addOrUpdateTenant_def Exec_def Let_def
      split: option.splits sum.splits)

lemma tenantRows_INSERT_tenant:
  "tenantRows i (applyStatement (INSERT_tenant (mapSystemUUIDToGocqlUUID i) v) db)
     = [(mapSystemUUIDToGocqlUUID i, v)]"
  by (simp add: tenantRows_def filter_empty_conv)

text \<open>
  Claim C4. When \<^verbatim>\<open>CreateTenant\<close> succeeds and returns an identifier, a later
  \<^verbatim>\<open>ReadTenant\<close> of that identifier, on any database in which the rows under that key are
  as the creation left them, succeeds and returns a record equal to the one created.
\<close>

theorem create_tenant_then_read_tenant:
  assumes "CreateTenant svc tenant db = (Return (tenantID, None), db')"
    and "tenantRows tenantID db'' = tenantRows tenantID db'"
    and "ClusterConfig svc' = Some (Cluster (Inr session'))"
  shows "fst (ReadTenant svc' tenantID db'') = Return (tenant, None)"
proof -
  have "tenantRows tenantID db'' = [(mapSystemUUIDToGocqlUUID tenantID, SecretKey tenant)]"
    using CreateTenant_success [OF assms(1)] assms(2)
    by (simp only: tenantRows_INSERT_tenant)
  then show ?thesis
    using assms(3) by (simp add: ReadTenant_def readTenant_eq)
qed

theorem create_tenant_then_read_tenant_witness:
  "(let svc = \<lparr>UUIDGeneratorService = Some (Generator (Inr EmptyUUID)),
               ClusterConfig = Some (Cluster (Inr (Session None)))\<rparr>;
        db' = \<lparr>tenantTable = [(GocqlUUID zeroArray, ''s3cr3t'')], applicationTable = [],
               issued = [INSERT_tenant (GocqlUUID zeroArray) ''s3cr3t'']\<rparr>
    in CreateTenant svc \<lparr>SecretKey = ''s3cr3t''\<rparr> emptyDatabase = (Return (EmptyUUID, None), db') \<and>
       ClusterConfig svc = Some (Cluster (Inr (Session None))) \<and>
       fst (ReadTenant svc EmptyUUID db') = Return (\<lparr>SecretKey = ''s3cr3t''\<rparr>, None))"
proof -
  let ?svc = "\<lparr>UUIDGeneratorService = Some (Generator (Inr EmptyUUID)),
               ClusterConfig = Some (Cluster (Inr (Session None)))\<rparr>"
  let ?db' = "\<lparr>tenantTable = [(GocqlUUID zeroArray, ''s3cr3t'')], applicationTable = [],
               issued = [INSERT_tenant (GocqlUUID zeroArray) ''s3cr3t'']\<rparr>"
  have created: "CreateTenant ?svc \<lparr>SecretKey = ''s3cr3t''\<rparr> emptyDatabase
                   = (Return (EmptyUUID, None), ?db')"
    by (simp add: CreateTenant_def addOrUpdateTenant_def Exec_def emptyDatabase_def
        EmptyUUID_def mapSystemUUIDToGocqlUUID_SystemUUID Let_def)
  have session: "ClusterConfig ?svc = Some (Cluster (Inr (Session None)))"
    by simp
  show ?thesis
    using create_tenant_then_read_tenant [OF created refl session] created
    by simp
qed

section \<open>The existence checks\<close>

lemma filter_key_length_le_1:
  "distinct (map f xs) \<Longrightarrow> length (filter (\<lambda>r. f r = k) xs) \<le> 1"
proof (induction xs)
  case Nil
  then show ?case by simp
next
  case (Cons x xs)
  show ?case
  proof (cases "f x = k")
    case True
    from Cons.prems have "f x \<notin> f ` set xs"
      by simp
    with True have "filter (\<lambda>r. f r = k) xs = []"
      unfolding filter_empty_conv by blast
    with True show ?thesis by simp
  next
    case False
    with Cons show ?thesis by simp
  qed
qed

lemma tenantRows_length:
  assumes "primaryKeyUnique db"
  shows "tenantRows i db \<noteq> [] \<longleftrightarrow> length (tenantRows i db) = 1"
proof -
  have "length (tenantRows i db) \<le> 1"
    using assms filter_key_length_le_1 [of fst "tenantTable db"]
    by (simp add: primaryKeyUnique_def tenantRows_def)
  then show ?thesis
    by (cases "tenantRows i db") auto
qed

lemma applicationRows_length:
  assumes "primaryKeyUnique db"
  shows "applicationRows i j db \<noteq> [] \<longleftrightarrow> length (applicationRows i j db) = 1"
proof -
  have "applicationRows i j db =
          filter (\<lambda>r. (fst r, fst (snd r)) = (mapSystemUUIDToGocqlUUID i, mapSystemUUIDToGocqlUUID j))
            (applicationTable db)"
    by (simp add: applicationRows_def)
  moreover have "length (filter (\<lambda>r. (fst r, fst (snd r)) = (mapSystemUUIDToGocqlUUID i, mapSystemUUIDToGocqlUUID j))
            (applicationTable db)) \<le> 1"
    using assms by (intro filter_key_length_le_1) (simp add: primaryKeyUnique_def)
  ultimately have "length (applicationRows i j db) \<le> 1"
    by simp
  then show ?thesis
    by (cases "applicationRows i j db") auto
qed

lemma tenantRows_keys:
  "tenantRows i db \<noteq> [] \<longleftrightarrow> mapSystemUUIDToGocqlUUID i \<in> set (map fst (tenantTable db))"
  by (force simp: tenantRows_def filter_empty_conv)

lemma applicationRows_keys:
  "applicationRows i j db \<noteq> [] \<longleftrightarrow>
     (mapSystemUUIDToGocqlUUID i, mapSystemUUIDToGocqlUUID j)
       \<in> set (map (\<lambda>r. (fst r, fst (snd r))) (applicationTable db))"
  by (force simp: applicationRows_def filter_empty_conv)

text \<open>
  Claim C7. In a database whose tables hold at most one row for a primary key, each of
  the two existence checks answers true exactly when one stored row matches the key.
  The answer is the same on any database with the same keys, whatever the rows hold
  beside the key.
\<close>

theorem existence_checks:
  assumes "primaryKeyUnique db"
  shows "fst (doesTenantExist tenantID session db) = (length (tenantRows tenantID db) = 1) \<and>
         fst (doesApplicationExist tenantID applicationID session db)
           = (length (applicationRows tenantID applicationID db) = 1) \<and>
         (map fst (tenantTable db2) = map fst (tenantTable db) \<longrightarrow>
            fst (doesTenantExist tenantID session db2) = fst (doesTenantExist tenantID session db)) \<and>
         (map (\<lambda>r. (fst r, fst (snd r))) (applicationTable db2)
            = map (\<lambda>r. (fst r, fst (snd r))) (applicationTable db) \<longrightarrow>
            fst (doesApplicationExist tenantID applicationID session db2)
              = fst (doesApplicationExist tenantID applicationID session db))"
  using tenantRows_length [OF assms] applicationRows_length [OF assms]
  by (simp add: doesTenantExist_eq doesApplicationExist_eq tenantRows_keys applicationRows_keys)

lemmas example_simps =
  tenantRows_def applicationRows_def EmptyUUID_def emptyDatabase_def
  mapSystemUUIDToGocqlUUID_SystemUUID mapGocqlUUIDToSystemUUID_GocqlUUID

theorem existence_checks_witness:
  "primaryKeyUnique
     \<lparr>tenantTable = [(GocqlUUID zeroArray, ''s3cr3t'')],
      applicationTable = [(GocqlUUID zeroArray, GocqlUUID zeroArray, ''billing'')], issued = []\<rparr> \<and>
   fst (doesTenantExist EmptyUUID (Session None)
     \<lparr>tenantTable = [(GocqlUUID zeroArray, ''s3cr3t'')],
      applicationTable = [(GocqlUUID zeroArray, GocqlUUID zeroArray, ''billing'')], issued = []\<rparr>) \<and>
   length (tenantRows EmptyUUID
     \<lparr>tenantTable = [(GocqlUUID zeroArray, ''s3cr3t'')],
      applicationTable = [(GocqlUUID zeroArray, GocqlUUID zeroArray, ''billing'')], issued = []\<rparr>) = 1 \<and>
   fst (doesApplicationExist EmptyUUID EmptyUUID (Session None)
     \<lparr>tenantTable = [(GocqlUUID zeroArray, ''s3cr3t'')],
      applicationTable = [(GocqlUUID zeroArray, GocqlUUID zeroArray, ''billing'')], issued = []\<rparr>) \<and>
   fst (doesTenantExist EmptyUUID (Session None)
     \<lparr>tenantTable = [(GocqlUUID zeroArray, ''changed'')],
      applicationTable = [(GocqlUUID zeroArray, GocqlUUID zeroArray, ''ledger'')], issued = []\<rparr>) \<and>
   fst (doesApplicationExist EmptyUUID EmptyUUID (Session None)
     \<lparr>tenantTable = [(GocqlUUID zeroArray, ''changed'')],
      applicationTable = [(GocqlUUID zeroArray, GocqlUUID zeroArray, ''ledger'')], issued = []\<rparr>)"
  using existence_checks
    [where db = "\<lparr>tenantTable = [(GocqlUUID zeroArray, ''s3cr3t'')],
      applicationTable = [(GocqlUUID zeroArray, GocqlUUID zeroArray, ''billing'')], issued = []\<rparr>"
       and ?db2.0 = "\<lparr>tenantTable = [(GocqlUUID zeroArray, ''changed'')],
      applicationTable = [(GocqlUUID zeroArray, GocqlUUID zeroArray, ''ledger'')], issued = []\<rparr>"
       and tenantID = EmptyUUID and applicationID = EmptyUUID and session = "Session None"]
  by (simp add: primaryKeyUnique_def example_simps)

section \<open>Reading all applications of a tenant\<close>

lemma mapSystem_mapGocql [simp]:
  "mapSystemUUIDToGocqlUUID (mapGocqlUUIDToSystemUUID g) = g"
  by (cases g) (simp add: mapSystemUUIDToGocqlUUID_SystemUUID mapGocqlUUIDToSystemUUID_GocqlUUID)

lemma mapGocql_mapSystem [simp]:
  "mapGocqlUUIDToSystemUUID (mapSystemUUIDToGocqlUUID i) = i"
  by (cases i) (simp add: mapSystemUUIDToGocqlUUID_SystemUUID mapGocqlUUIDToSystemUUID_GocqlUUID)

lemma mapGocql_eq_iff: "mapGocqlUUIDToSystemUUID g = i \<longleftrightarrow> g = mapSystemUUIDToGocqlUUID i"
  by auto

lemma scanApplications_other:
  "mapSystemUUIDToGocqlUUID i \<notin> fst ` set rows \<Longrightarrow> scanApplications rows m i = m i"
proof (induction rows arbitrary: m)
  case Nil
  then show ?case by simp
next
  case (Cons row rows)
  obtain g n where row: "row = (g, n)" by (cases row)
  from Cons.prems row have "g \<noteq> mapSystemUUIDToGocqlUUID i"
    and rest: "mapSystemUUIDToGocqlUUID i \<notin> fst ` set rows"
    by auto
  then have "mapGocqlUUIDToSystemUUID g \<noteq> i"
    by (simp add: mapGocql_eq_iff)
  with Cons.IH [OF rest] row show ?case by simp
qed

lemma scanApplications_row:
  "distinct (map fst rows) \<Longrightarrow> (g, n) \<in> set rows \<Longrightarrow>
     scanApplications rows m (mapGocqlUUIDToSystemUUID g) = Some \<lparr>Name = n\<rparr>"
proof (induction rows arbitrary: m)
  case Nil
  then show ?case by simp
next
  case (Cons row rows)
  obtain g' n' where row: "row = (g', n')" by (cases row)
  show ?case
  proof (cases "(g, n) = row")
    case True
    with Cons.prems(1) have "mapSystemUUIDToGocqlUUID (mapGocqlUUIDToSystemUUID g) \<notin> fst ` set rows"
      by force
    from scanApplications_other [OF this] True row show ?thesis
      by auto
  next
    case False
    with Cons.prems have "(g, n) \<in> set rows" and "distinct (map fst rows)"
      by auto
    with Cons.IH row show ?thesis by simp
  qed
qed

lemma scanApplications_empty_iff:
  assumes "distinct (map fst rows)"
  shows "scanApplications rows Map.empty i = Some application \<longleftrightarrow>
           (mapSystemUUIDToGocqlUUID i, Name application) \<in> set rows"
proof
  assume "(mapSystemUUIDToGocqlUUID i, Name application) \<in> set rows"
  from scanApplications_row [OF assms this, of Map.empty]
  show "scanApplications rows Map.empty i = Some application"
    by simp
next
  assume found: "scanApplications rows Map.empty i = Some application"
  have "mapSystemUUIDToGocqlUUID i \<in> fst ` set rows"
  proof (rule ccontr)
    assume "mapSystemUUIDToGocqlUUID i \<notin> fst ` set rows"
    from scanApplications_other [OF this, of Map.empty] found show False
      by simp
  qed
  then obtain n where row: "(mapSystemUUIDToGocqlUUID i, n) \<in> set rows"
    by auto
  from scanApplications_row [OF assms row, of Map.empty] found
  have "n = Name application" by auto
  with row show "(mapSystemUUIDToGocqlUUID i, Name application) \<in> set rows"
    by simp
qed

lemma distinct_application_ids:
  "distinct (map (\<lambda>r. (fst r, fst (snd r))) rows) \<Longrightarrow>
     distinct (map fst (map snd (filter (\<lambda>r. fst r = t) rows)))"
proof (induction rows)
  case Nil
  then show ?case by simp
next
  case (Cons row rows)
  from Cons.prems have fresh: "(fst row, fst (snd row)) \<notin> (\<lambda>r. (fst r, fst (snd r))) ` set rows"
    and rest: "distinct (map (\<lambda>r. (fst r, fst (snd r))) rows)"
    by simp_all
  show ?case
  proof (cases "fst row = t")
    case True
    have "fst (snd row) \<notin> fst ` snd ` set (filter (\<lambda>r. fst r = t) rows)"
    proof
      assume "fst (snd row) \<in> fst ` snd ` set (filter (\<lambda>r. fst r = t) rows)"
      then obtain r where "r \<in> set rows" "fst r = t" "fst (snd r) = fst (snd row)"
        by auto
      with True have same: "(\<lambda>r. (fst r, fst (snd r))) r = (fst row, fst (snd row))"
        by simp
      have "(\<lambda>r. (fst r, fst (snd r))) r \<in> (\<lambda>r. (fst r, fst (snd r))) ` set rows"
        using \<open>r \<in> set rows\<close> by (rule imageI)
      with same fresh show False
        by simp
    qed
    with True Cons.IH [OF rest] show ?thesis
      by (simp add: image_image)
  next
    case False
    with Cons.IH [OF rest] show ?thesis by simp
  qed
qed

lemma Iter_application_id_name_UUID_String:
  "Iter_application_id_name session (UUID_String i) db =
     (map snd (filter (\<lambda>r. fst r = mapSystemUUIDToGocqlUUID i) (applicationTable db)),
      db\<lparr>issued := issued db @ [SELECT_application_id_name (UUID_String i)]\<rparr>)"
  by (simp add: Iter_application_id_name_def matchesText_UUID_String)

lemma readAllApplications_entries:
  assumes "primaryKeyUnique db"
  shows "fst (readAllApplications tenantID session db) applicationID = Some application \<longleftrightarrow>
           (mapSystemUUIDToGocqlUUID tenantID, mapSystemUUIDToGocqlUUID applicationID,
            Name application) \<in> set (applicationTable db)"
proof -
  let ?rows = "map snd (filter (\<lambda>r. fst r = mapSystemUUIDToGocqlUUID tenantID) (applicationTable db))"
  have "distinct (map fst ?rows)"
    using assms by (intro distinct_application_ids) (simp add: primaryKeyUnique_def)
  from scanApplications_empty_iff [OF this]
  have "scanApplications ?rows Map.empty applicationID = Some application \<longleftrightarrow>
          (mapSystemUUIDToGocqlUUID applicationID, Name application) \<in> set ?rows" .
  also have "\<dots> \<longleftrightarrow> (mapSystemUUIDToGocqlUUID tenantID, mapSystemUUIDToGocqlUUID applicationID,
            Name application) \<in> set (applicationTable db)"
    by force
  finally show ?thesis
    by (simp add: readAllApplications_def Iter_application_id_name_UUID_String)
qed

lemma primaryKeyUnique_issued [simp]:
  "primaryKeyUnique (db\<lparr>issued := l\<rparr>) = primaryKeyUnique db"
  by (simp add: primaryKeyUnique_def)

text \<open>
  Claim C8. For a call that obtains its session, \<^verbatim>\<open>ReadAllApplications\<close> fails with the
  tenant-not-found error when the tenant has no row. When the tenant has a row it
  succeeds, and the map returned has an entry from an application identifier to an
  application record exactly when the application table holds the row with the tenant's
  key, that application identifier and that record's name.
\<close>

theorem read_all_applications:
  assumes "ClusterConfig svc = Some (Cluster (Inr session))"
  shows "(tenantRows tenantID db = [] \<longrightarrow>
            fst (ReadAllApplications svc tenantID db)
              = Return (Map.empty,
                  Some (Errorf (''Tenant not found. Tenant ID: '' @ UUID_String tenantID)))) \<and>
         (tenantRows tenantID db \<noteq> [] \<and> primaryKeyUnique db \<longrightarrow>
            (\<exists>applications.
               fst (ReadAllApplications svc tenantID db) = Return (applications, None) \<and>
               (\<forall>applicationID application.
                  applications applicationID = Some application \<longleftrightarrow>
                    (mapSystemUUIDToGocqlUUID tenantID, mapSystemUUIDToGocqlUUID applicationID,
                     Name application) \<in> set (applicationTable db))))"
proof (intro conjI impI)
  assume "tenantRows tenantID db = []"
  with assms show "fst (ReadAllApplications svc tenantID db)
              = Return (Map.empty,
                  Some (Errorf (''Tenant not found. Tenant ID: '' @ UUID_String tenantID)))"
    by (simp add: ReadAllApplications_def doesTenantExist_eq tenantNotFound_def)
next
  let ?db' = "db\<lparr>issued := issued db @ [SELECT_secret_key (UUID_String tenantID)]\<rparr>"
  assume present: "tenantRows tenantID db \<noteq> [] \<and> primaryKeyUnique db"
  with assms have "fst (ReadAllApplications svc tenantID db)
      = Return (fst (readAllApplications tenantID session ?db'), None)"
    by (simp add: ReadAllApplications_def doesTenantExist_eq case_prod_unfold Let_def)
  moreover have "\<forall>applicationID application.
      fst (readAllApplications tenantID session ?db') applicationID = Some application \<longleftrightarrow>
        (mapSystemUUIDToGocqlUUID tenantID, mapSystemUUIDToGocqlUUID applicationID,
         Name application) \<in> set (applicationTable db)"
    using present readAllApplications_entries [of ?db' tenantID session] by simp
  ultimately show "\<exists>applications.
               fst (ReadAllApplications svc tenantID db) = Return (applications, None) \<and>
               (\<forall>applicationID application.
                  applications applicationID = Some application \<longleftrightarrow>
                    (mapSystemUUIDToGocqlUUID tenantID, mapSystemUUIDToGocqlUUID applicationID,
                     Name application) \<in> set (applicationTable db))"
    by blast
qed

theorem read_all_applications_witness:
  "ClusterConfig \<lparr>UUIDGeneratorService = None, ClusterConfig = Some (Cluster (Inr (Session None)))\<rparr>
     = Some (Cluster (Inr (Session None))) \<and>
   tenantRows EmptyUUID emptyDatabase = [] \<and>
   fst (ReadAllApplications
          \<lparr>UUIDGeneratorService = None, ClusterConfig = Some (Cluster (Inr (Session None)))\<rparr>
          EmptyUUID emptyDatabase)
     = Return (Map.empty, Some (Errorf (''Tenant not found. Tenant ID: '' @ UUID_String EmptyUUID))) \<and>
   tenantRows EmptyUUID
     \<lparr>tenantTable = [(GocqlUUID zeroArray, ''s3cr3t'')],
      applicationTable = [(GocqlUUID zeroArray, GocqlUUID zeroArray, ''billing'')], issued = []\<rparr> \<noteq> [] \<and>
   primaryKeyUnique
     \<lparr>tenantTable = [(GocqlUUID zeroArray, ''s3cr3t'')],
      applicationTable = [(GocqlUUID zeroArray, GocqlUUID zeroArray, ''billing'')], issued = []\<rparr> \<and>
   fst (ReadAllApplications
          \<lparr>UUIDGeneratorService = None, ClusterConfig = Some (Cluster (Inr (Session None)))\<rparr>
          EmptyUUID
          \<lparr>tenantTable = [(GocqlUUID zeroArray, ''s3cr3t'')],
           applicationTable = [(GocqlUUID zeroArray, GocqlUUID zeroArray, ''billing'')], issued = []\<rparr>)
     = Return ([EmptyUUID \<mapsto> \<lparr>Name = ''billing''\<rparr>], None)"
proof -
  let ?svc = "\<lparr>UUIDGeneratorService = None, ClusterConfig = Some (Cluster (Inr (Session None)))\<rparr>"
  let ?db = "\<lparr>tenantTable = [(GocqlUUID zeroArray, ''s3cr3t'')],
      applicationTable = [(GocqlUUID zeroArray, GocqlUUID zeroArray, ''billing'')], issued = []\<rparr>"
  have session: "ClusterConfig ?svc = Some (Cluster (Inr (Session None)))"
    by simp
  have absent: "tenantRows EmptyUUID emptyDatabase = []"
    by (simp add: example_simps)
  have present: "tenantRows EmptyUUID ?db \<noteq> [] \<and> primaryKeyUnique ?db"
    by (simp add: primaryKeyUnique_def example_simps)
  have result: "fst (ReadAllApplications ?svc EmptyUUID ?db)
                  = Return ([EmptyUUID \<mapsto> \<lparr>Name = ''billing''\<rparr>], None)"
    by (simp add: ReadAllApplications_def doesTenantExist_eq readAllApplications_def
        Iter_application_id_name_UUID_String Let_def example_simps)
  show ?thesis
    using read_all_applications [OF session, of EmptyUUID emptyDatabase]
      read_all_applications [OF session, of EmptyUUID ?db]
      session absent present result
    by simp
qed

section \<open>Updating an application\<close>

lemma applicationRows_INSERT_application:
  "applicationRows i j
     (applyStatement (INSERT_application (mapSystemUUIDToGocqlUUID i) (mapSystemUUIDToGocqlUUID j) n) db)
     = [(mapSystemUUIDToGocqlUUID i, mapSystemUUIDToGocqlUUID j, n)]"
  by (simp add: applicationRows_def filter_empty_conv)

lemma UpdateApplication_both_present:
  assumes "ClusterConfig svc = Some (Cluster (Inr session))"
    and "tenantRows tenantID db \<noteq> []"
    and "applicationRows tenantID applicationID db \<noteq> []"
    and "execFailure session = None"
  shows "UpdateApplication svc tenantID applicationID application db =
           (Return None,
            applyStatement
              (INSERT_application (mapSystemUUIDToGocqlUUID tenantID)
                 (mapSystemUUIDToGocqlUUID applicationID) (Name application))
              (db\<lparr>issued := issued db @
                   [SELECT_secret_key (UUID_String tenantID),
                    SELECT_name (UUID_String tenantID) (UUID_String applicationID),
                    INSERT_application (mapSystemUUIDToGocqlUUID tenantID)
                      (mapSystemUUIDToGocqlUUID applicationID) (Name application)]\<rparr>))"
  using assms
  by (simp add: UpdateApplication_def doesTenantExist_eq doesApplicationExist_eq
      addOrUpdateApplication_def Exec_def Let_def)

text \<open>
  Claim C5. For a call that obtains its session, \<^verbatim>\<open>UpdateApplication\<close> fails with the
  tenant-not-found error when the tenant has no row; with a tenant row and no application
  row it fails with the error that names both identifiers; with both rows and a statement
  that the database executes it returns no error, the only row under the key
  \<open>(tenantID, applicationID)\<close> then holds the given name, and the rows under other keys and
  the tenant table are as before.
\<close>

theorem update_application:
  assumes "ClusterConfig svc = Some (Cluster (Inr session))"
  shows "(tenantRows tenantID db = [] \<longrightarrow>
            fst (UpdateApplication svc tenantID applicationID application db)
              = Return (Some (Errorf (''Tenant not found. Tenant ID: '' @ UUID_String tenantID)))) \<and>
         (tenantRows tenantID db \<noteq> [] \<and> applicationRows tenantID applicationID db = [] \<longrightarrow>
            fst (UpdateApplication svc tenantID applicationID application db)
              = Return (Some (Errorf (''Tenant Application not found. Tenant ID: '' @
                                      UUID_String tenantID @ '', Application ID: '' @
                                      UUID_String applicationID)))) \<and>
         (tenantRows tenantID db \<noteq> [] \<and> applicationRows tenantID applicationID db \<noteq> [] \<and>
          execFailure session = None \<longrightarrow>
            fst (UpdateApplication svc tenantID applicationID application db) = Return None \<and>
            applicationRows tenantID applicationID
                (snd (UpdateApplication svc tenantID applicationID application db))
              = [(mapSystemUUIDToGocqlUUID tenantID, mapSystemUUIDToGocqlUUID applicationID,
                  Name application)] \<and>
            filter (\<lambda>r. \<not> (fst r = mapSystemUUIDToGocqlUUID tenantID \<and>
                            fst (snd r) = mapSystemUUIDToGocqlUUID applicationID))
                (applicationTable (snd (UpdateApplication svc tenantID applicationID application db)))
              = filter (\<lambda>r. \<not> (fst r = mapSystemUUIDToGocqlUUID tenantID \<and>
                              fst (snd r) = mapSystemUUIDToGocqlUUID applicationID))
                  (applicationTable db) \<and>
            tenantTable (snd (UpdateApplication svc tenantID applicationID application db))
              = tenantTable db)"
proof (intro conjI impI)
  assume "tenantRows tenantID db = []"
  with assms show "fst (UpdateApplication svc tenantID applicationID application db)
              = Return (Some (Errorf (''Tenant not found. Tenant ID: '' @ UUID_String tenantID)))"
    by (simp add: UpdateApplication_def doesTenantExist_eq tenantNotFound_def)
next
  assume "tenantRows tenantID db \<noteq> [] \<and> applicationRows tenantID applicationID db = []"
  with assms show "fst (UpdateApplication svc tenantID applicationID application db)
              = Return (Some (Errorf (''Tenant Application not found. Tenant ID: '' @
                                      UUID_String tenantID @ '', Application ID: '' @
                                      UUID_String applicationID)))"
    by (simp add: UpdateApplication_def doesTenantExist_eq doesApplicationExist_eq
        applicationNotFound_def)
next
  assume present: "tenantRows tenantID db \<noteq> [] \<and> applicationRows tenantID applicationID db \<noteq> [] \<and>
          execFailure session = None"
  then have eq: "UpdateApplication svc tenantID applicationID application db =
           (Return None,
            applyStatement
              (INSERT_application (mapSystemUUIDToGocqlUUID tenantID)
                 (mapSystemUUIDToGocqlUUID applicationID) (Name application))
              (db\<lparr>issued := issued db @
                   [SELECT_secret_key (UUID_String tenantID),
                    SELECT_name (UUID_String tenantID) (UUID_String applicationID),
                    INSERT_application (mapSystemUUIDToGocqlUUID tenantID)
                      (mapSystemUUIDToGocqlUUID applicationID) (Name application)]\<rparr>))"
    using assms UpdateApplication_both_present [of svc session tenantID db applicationID application]
    by blast
  show "fst (UpdateApplication svc tenantID applicationID application db) = Return None"
    by (simp add: eq)
  show "applicationRows tenantID applicationID
                (snd (UpdateApplication svc tenantID applicationID application db))
              = [(mapSystemUUIDToGocqlUUID tenantID, mapSystemUUIDToGocqlUUID applicationID,
                  Name application)]"
    by (simp only: eq snd_conv applicationRows_INSERT_application)
  show "filter (\<lambda>r. \<not> (fst r = mapSystemUUIDToGocqlUUID tenantID \<and>
                            fst (snd r) = mapSystemUUIDToGocqlUUID applicationID))
                (applicationTable (snd (UpdateApplication svc tenantID applicationID application db)))
              = filter (\<lambda>r. \<not> (fst r = mapSystemUUIDToGocqlUUID tenantID \<and>
                              fst (snd r) = mapSystemUUIDToGocqlUUID applicationID))
                  (applicationTable db)"
    by (simp add: eq)
  show "tenantTable (snd (UpdateApplication svc tenantID applicationID application db))
              = tenantTable db"
    by (simp add: eq)
qed

theorem update_application_witness:
  "ClusterConfig \<lparr>UUIDGeneratorService = None, ClusterConfig = Some (Cluster (Inr (Session None)))\<rparr>
     = Some (Cluster (Inr (Session None))) \<and>
   execFailure (Session None) = None \<and>
   tenantRows EmptyUUID emptyDatabase = [] \<and>
   fst (UpdateApplication
          \<lparr>UUIDGeneratorService = None, ClusterConfig = Some (Cluster (Inr (Session None)))\<rparr>
          EmptyUUID EmptyUUID \<lparr>Name = ''ledger''\<rparr> emptyDatabase)
     = Return (Some (Errorf (''Tenant not found. Tenant ID: '' @ UUID_String EmptyUUID))) \<and>
   tenantRows EmptyUUID
     \<lparr>tenantTable = [(GocqlUUID zeroArray, ''s3cr3t'')], applicationTable = [], issued = []\<rparr> \<noteq> [] \<and>
   applicationRows EmptyUUID EmptyUUID
     \<lparr>tenantTable = [(GocqlUUID zeroArray, ''s3cr3t'')], applicationTable = [], issued = []\<rparr> = [] \<and>
   fst (UpdateApplication
          \<lparr>UUIDGeneratorService = None, ClusterConfig = Some (Cluster (Inr (Session None)))\<rparr>
          EmptyUUID EmptyUUID \<lparr>Name = ''ledger''\<rparr>
          \<lparr>tenantTable = [(GocqlUUID zeroArray, ''s3cr3t'')], applicationTable = [], issued = []\<rparr>)
     = Return (Some (Errorf (''Tenant Application not found. Tenant ID: '' @ UUID_String EmptyUUID @
                             '', Application ID: '' @ UUID_String EmptyUUID))) \<and>
   applicationRows EmptyUUID EmptyUUID
     \<lparr>tenantTable = [(GocqlUUID zeroArray, ''s3cr3t'')],
      applicationTable = [(GocqlUUID zeroArray, GocqlUUID zeroArray, ''billing'')], issued = []\<rparr> \<noteq> [] \<and>
   fst (UpdateApplication
          \<lparr>UUIDGeneratorService = None, ClusterConfig = Some (Cluster (Inr (Session None)))\<rparr>
          EmptyUUID EmptyUUID \<lparr>Name = ''ledger''\<rparr>
          \<lparr>tenantTable = [(GocqlUUID zeroArray, ''s3cr3t'')],
           applicationTable = [(GocqlUUID zeroArray, GocqlUUID zeroArray, ''billing'')], issued = []\<rparr>)
     = Return None \<and>
   applicationRows EmptyUUID EmptyUUID
     (snd (UpdateApplication
          \<lparr>UUIDGeneratorService = None, ClusterConfig = Some (Cluster (Inr (Session None)))\<rparr>
          EmptyUUID EmptyUUID \<lparr>Name = ''ledger''\<rparr>
          \<lparr>tenantTable = [(GocqlUUID zeroArray, ''s3cr3t'')],
           applicationTable = [(GocqlUUID zeroArray, GocqlUUID zeroArray, ''billing'')], issued = []\<rparr>))
     = [(GocqlUUID zeroArray, GocqlUUID zeroArray, ''ledger'')]"
proof -
  let ?svc = "\<lparr>UUIDGeneratorService = None, ClusterConfig = Some (Cluster (Inr (Session None)))\<rparr>"
  have session: "ClusterConfig ?svc = Some (Cluster (Inr (Session None)))"
    by simp
  show ?thesis
    using update_application [OF session, of EmptyUUID emptyDatabase EmptyUUID "\<lparr>Name = ''ledger''\<rparr>"]
      update_application [OF session, of EmptyUUID
        "\<lparr>tenantTable = [(GocqlUUID zeroArray, ''s3cr3t'')], applicationTable = [], issued = []\<rparr>"
        EmptyUUID "\<lparr>Name = ''ledger''\<rparr>"]
      update_application [OF session, of EmptyUUID
        "\<lparr>tenantTable = [(GocqlUUID zeroArray, ''s3cr3t'')],
          applicationTable = [(GocqlUUID zeroArray, GocqlUUID zeroArray, ''billing'')], issued = []\<rparr>"
        EmptyUUID "\<lparr>Name = ''ledger''\<rparr>"]
    by (simp add: example_simps)
qed

section \<open>Reading an application of a deleted tenant\<close>

lemma DeleteTenant_success:
  assumes "DeleteTenant svc tenantID db = (Return None, db')"
  shows "db' = applyStatement (DELETE_tenant (mapSystemUUIDToGocqlUUID tenantID))
                 (db\<lparr>issued := issued db @
                    [SELECT_secret_key (UUID_String tenantID),
                     DELETE_tenant (mapSystemUUIDToGocqlUUID tenantID)]\<rparr>)"
  using assms
  by (auto simp: DeleteTenant_def doesTenantExist_eq Exec_def Let_def
      split: option.splits sum.splits if_splits)

lemma tenantRows_DELETE_tenant:
  "tenantRows i (applyStatement (DELETE_tenant (mapSystemUUIDToGocqlUUID i)) db) = []"
  by (simp add: tenantRows_def filter_empty_conv)

text \<open>
  Claim C6. After \<^verbatim>\<open>DeleteTenant\<close> has succeeded for a tenant, the application rows of that
  tenant are still stored, and \<^verbatim>\<open>ReadApplication\<close> for that tenant and any application
  identifier fails with the tenant-not-found error; the one statement it issues is the
  select on the tenant table, so the application table is not queried.
\<close>

theorem read_application_after_delete_tenant:
  assumes "DeleteTenant svc tenantID db = (Return None, db')"
    and "ClusterConfig svc' = Some (Cluster (Inr session'))"
  shows "applicationRows tenantID applicationID db' = applicationRows tenantID applicationID db \<and>
         ReadApplication svc' tenantID applicationID db' =
           (Return (\<lparr>Name = []\<rparr>,
              Some (Errorf (''Tenant not found. Tenant ID: '' @ UUID_String tenantID))),
            db'\<lparr>issued := issued db' @ [SELECT_secret_key (UUID_String tenantID)]\<rparr>)"
proof
  note deleted = DeleteTenant_success [OF assms(1)]
  show "applicationRows tenantID applicationID db' = applicationRows tenantID applicationID db"
    by (simp add: deleted applicationRows_def)
  have "tenantRows tenantID db' = []"
    by (simp only: deleted tenantRows_DELETE_tenant)
  with assms(2) show "ReadApplication svc' tenantID applicationID db' =
           (Return (\<lparr>Name = []\<rparr>,
              Some (Errorf (''Tenant not found. Tenant ID: '' @ UUID_String tenantID))),
            db'\<lparr>issued := issued db' @ [SELECT_secret_key (UUID_String tenantID)]\<rparr>)"
    by (simp add: ReadApplication_def doesTenantExist_eq tenantNotFound_def)
qed

theorem read_application_after_delete_tenant_witness:
  "DeleteTenant \<lparr>UUIDGeneratorService = None, ClusterConfig = Some (Cluster (Inr (Session None)))\<rparr>
     EmptyUUID
     \<lparr>tenantTable = [(GocqlUUID zeroArray, ''s3cr3t'')],
      applicationTable = [(GocqlUUID zeroArray, GocqlUUID zeroArray, ''billing'')], issued = []\<rparr>
     = (Return None,
        \<lparr>tenantTable = [],
         applicationTable = [(GocqlUUID zeroArray, GocqlUUID zeroArray, ''billing'')],
         issued = [SELECT_secret_key (UUID_String EmptyUUID), DELETE_tenant (GocqlUUID zeroArray)]\<rparr>) \<and>
   ClusterConfig \<lparr>UUIDGeneratorService = None, ClusterConfig = Some (Cluster (Inr (Session None)))\<rparr>
     = Some (Cluster (Inr (Session None))) \<and>
   applicationRows EmptyUUID EmptyUUID
     \<lparr>tenantTable = [],
      applicationTable = [(GocqlUUID zeroArray, GocqlUUID zeroArray, ''billing'')],
      issued = [SELECT_secret_key (UUID_String EmptyUUID), DELETE_tenant (GocqlUUID zeroArray)]\<rparr>
     = [(GocqlUUID zeroArray, GocqlUUID zeroArray, ''billing'')] \<and>
   ReadApplication \<lparr>UUIDGeneratorService = None, ClusterConfig = Some (Cluster (Inr (Session None)))\<rparr>
     EmptyUUID EmptyUUID
     \<lparr>tenantTable = [],
      applicationTable = [(GocqlUUID zeroArray, GocqlUUID zeroArray, ''billing'')],
      issued = [SELECT_secret_key (UUID_String EmptyUUID), DELETE_tenant (GocqlUUID zeroArray)]\<rparr>
     = (Return (\<lparr>Name = []\<rparr>,
          Some (Errorf (''Tenant not found. Tenant ID: '' @ UUID_String EmptyUUID))),
        \<lparr>tenantTable = [],
         applicationTable = [(GocqlUUID zeroArray, GocqlUUID zeroArray, ''billing'')],
         issued = [SELECT_secret_key (UUID_String EmptyUUID), DELETE_tenant (GocqlUUID zeroArray),
                   SELECT_secret_key (UUID_String EmptyUUID)]\<rparr>)"
proof -
  let ?svc = "\<lparr>UUIDGeneratorService = None, ClusterConfig = Some (Cluster (Inr (Session None)))\<rparr>"
  let ?db = "\<lparr>tenantTable = [(GocqlUUID zeroArray, ''s3cr3t'')],
      applicationTable = [(GocqlUUID zeroArray, GocqlUUID zeroArray, ''billing'')], issued = []\<rparr>"
  let ?db' = "\<lparr>tenantTable = [],
         applicationTable = [(GocqlUUID zeroArray, GocqlUUID zeroArray, ''billing'')],
         issued = [SELECT_secret_key (UUID_String EmptyUUID), DELETE_tenant (GocqlUUID zeroArray)]\<rparr>"
  have deleted: "DeleteTenant ?svc EmptyUUID ?db = (Return None, ?db')"
    by (simp add: DeleteTenant_def doesTenantExist_eq Exec_def Let_def example_simps)
  have session: "ClusterConfig ?svc = Some (Cluster (Inr (Session None)))"
    by simp
  show ?thesis
    using read_application_after_delete_tenant [OF deleted session, of EmptyUUID] deleted
    by (simp add: example_simps)
qed

section \<open>Not-found failures\<close>

lemma issuedSince_append [simp]:
  "issuedSince db (db'\<lparr>issued := issued db @ l\<rparr>) = l"
  by (simp add: issuedSince_def)

lemma issuedSince_applyStatement [simp]:
  "issuedSince db (applyStatement stmt db') = issuedSince db db'"
  by (cases stmt) (simp_all add: issuedSince_def)

lemmas operation_simps =
  doesTenantExist_eq doesApplicationExist_eq readTenant_eq readApplication_eq
  addOrUpdateTenant_def addOrUpdateApplication_def Exec_def
  tenantNotFound_def applicationNotFound_def Let_def

lemma CreateTenant_no_Errorf:
  "CreateTenant svc t db \<noteq> (Return (v, Some (Errorf message)), db')"
  by (auto simp: CreateTenant_def operation_simps split: option.splits sum.splits)

lemma UpdateTenant_Errorf:
  "UpdateTenant svc i t db = (Return (Some (Errorf message)), db') \<Longrightarrow>
     notFoundOutcome (OpUpdateTenant i t) db message db'"
  by (auto simp: UpdateTenant_def operation_simps notFoundOutcome_def
      split: option.splits sum.splits if_splits)

lemma ReadTenant_Errorf:
  "ReadTenant svc i db = (Return (v, Some (Errorf message)), db') \<Longrightarrow>
     notFoundOutcome (OpReadTenant i) db message db'"
  by (auto simp: ReadTenant_def operation_simps notFoundOutcome_def
      split: option.splits sum.splits if_splits list.splits)

lemma DeleteTenant_Errorf:
  "DeleteTenant svc i db = (Return (Some (Errorf message)), db') \<Longrightarrow>
     notFoundOutcome (OpDeleteTenant i) db message db'"
  by (auto simp: DeleteTenant_def operation_simps notFoundOutcome_def
      split: option.splits sum.splits if_splits)

lemma CreateApplication_Errorf:
  "CreateApplication svc i a db = (Return (v, Some (Errorf message)), db') \<Longrightarrow>
     notFoundOutcome (OpCreateApplication i a) db message db'"
  by (auto simp: CreateApplication_def operation_simps notFoundOutcome_def
      split: option.splits sum.splits if_splits)

lemma UpdateApplication_Errorf:
  "UpdateApplication svc i j a db = (Return (Some (Errorf message)), db') \<Longrightarrow>
     notFoundOutcome (OpUpdateApplication i j a) db message db'"
  by (auto simp: UpdateApplication_def operation_simps notFoundOutcome_def
      split: option.splits sum.splits if_splits)

lemma ReadApplication_Errorf:
  "ReadApplication svc i j db = (Return (v, Some (Errorf message)), db') \<Longrightarrow>
     notFoundOutcome (OpReadApplication i j) db message db'"
  by (auto simp: ReadApplication_def operation_simps notFoundOutcome_def
      split: option.splits sum.splits if_splits list.splits)

lemma ReadAllApplications_Errorf:
  "ReadAllApplications svc i db = (Return (v, Some (Errorf message)), db') \<Longrightarrow>
     notFoundOutcome (OpReadAllApplications i) db message db'"
  by (auto simp: ReadAllApplications_def operation_simps notFoundOutcome_def
      readAllApplications_def Iter_application_id_name_def
      split: option.splits sum.splits if_splits)

lemma DeleteApplication_Errorf:
  "DeleteApplication svc i j db = (Return (Some (Errorf message)), db') \<Longrightarrow>
     notFoundOutcome (OpDeleteApplication i j) db message db'"
  by (auto simp: DeleteApplication_def operation_simps notFoundOutcome_def
      split: option.splits sum.splits if_splits)

lemma apfst_failure_Return:
  "apfst failure r = (Return err, db') \<Longrightarrow> \<exists>v. r = (Return (v, err), db')"
  by (cases r; cases "fst r") (auto elim: failure.elims)

text \<open>
  Claim C2. Whenever an operation returns a not-found error (the only errors the service
  builds itself), both tables are as they were before the call, every statement the call
  has issued is a select, and the message is the tenant message with the tenant
  identifier of the call, or the application message with its tenant and application
  identifiers.
\<close>

theorem not_found_before_any_mutation:
  assumes "perform svc op db = (Return (Some (Errorf message)), db')"
  shows "tenantTable db' = tenantTable db \<and> applicationTable db' = applicationTable db \<and>
         list_all isSelect (issuedSince db db') \<and>
         (\<exists>tenantID. tenantIDOf op = Some tenantID \<and>
            (message = ''Tenant not found. Tenant ID: '' @ UUID_String tenantID \<or>
             (\<exists>applicationID. applicationIDOf op = Some applicationID \<and>
                message = ''Tenant Application not found. Tenant ID: '' @ UUID_String tenantID @
                          '', Application ID: '' @ UUID_String applicationID)))"
proof -
  have "notFoundOutcome op db message db'"
  proof (cases op)
    case (OpCreateTenant t)
    with assms obtain v where "CreateTenant svc t db = (Return (v, Some (Errorf message)), db')"
      by (auto dest: apfst_failure_Return)
    then show ?thesis
      by (simp add: CreateTenant_no_Errorf)
  next
    case (OpUpdateTenant i t)
    with assms show ?thesis
      by (simp add: UpdateTenant_Errorf)
  next
    case (OpReadTenant i)
    with assms obtain v where "ReadTenant svc i db = (Return (v, Some (Errorf message)), db')"
      by (auto dest: apfst_failure_Return)
    with OpReadTenant show ?thesis
      by (simp add: ReadTenant_Errorf)
  next
    case (OpDeleteTenant i)
    with assms show ?thesis
      by (simp add: DeleteTenant_Errorf)
  next
    case (OpCreateApplication i a)
    with assms obtain v where
      "CreateApplication svc i a db = (Return (v, Some (Errorf message)), db')"
      by (auto dest: apfst_failure_Return)
    with OpCreateApplication show ?thesis
      by (simp add: CreateApplication_Errorf)
  next
    case (OpUpdateApplication i j a)
    with assms show ?thesis
      by (simp add: UpdateApplication_Errorf)
  next
    case (OpReadApplication i j)
    with assms obtain v where
      "ReadApplication svc i j db = (Return (v, Some (Errorf message)), db')"
      by (auto dest: apfst_failure_Return)
    with OpReadApplication show ?thesis
      by (simp add: ReadApplication_Errorf)
  next
    case (OpReadAllApplications i)
    with assms obtain v where
      "ReadAllApplications svc i db = (Return (v, Some (Errorf message)), db')"
      by (auto dest: apfst_failure_Return)
    with OpReadAllApplications show ?thesis
      by (simp add: ReadAllApplications_Errorf)
  next
    case (OpDeleteApplication i j)
    with assms show ?thesis
      by (simp add: DeleteApplication_Errorf)
  qed
  then show ?thesis
    by (simp only: notFoundOutcome_def)
qed

theorem not_found_before_any_mutation_witness:
  "perform \<lparr>UUIDGeneratorService = None, ClusterConfig = Some (Cluster (Inr (Session None)))\<rparr>
     (OpDeleteApplication EmptyUUID EmptyUUID)
     \<lparr>tenantTable = [(GocqlUUID zeroArray, ''s3cr3t'')], applicationTable = [], issued = []\<rparr>
     = (Return (Some (Errorf (''Tenant Application not found. Tenant ID: '' @ UUID_String EmptyUUID @
                              '', Application ID: '' @ UUID_String EmptyUUID))),
        \<lparr>tenantTable = [(GocqlUUID zeroArray, ''s3cr3t'')], applicationTable = [],
         issued = [SELECT_secret_key (UUID_String EmptyUUID),
                   SELECT_name (UUID_String EmptyUUID) (UUID_String EmptyUUID)]\<rparr>) \<and>
   list_all isSelect
     (issuedSince
        \<lparr>tenantTable = [(GocqlUUID zeroArray, ''s3cr3t'')], applicationTable = [], issued = []\<rparr>
        \<lparr>tenantTable = [(GocqlUUID zeroArray, ''s3cr3t'')], applicationTable = [],
         issued = [SELECT_secret_key (UUID_String EmptyUUID),
                   SELECT_name (UUID_String EmptyUUID) (UUID_String EmptyUUID)]\<rparr>) \<and>
   tenantIDOf (OpDeleteApplication EmptyUUID EmptyUUID) = Some EmptyUUID \<and>
   applicationIDOf (OpDeleteApplication EmptyUUID EmptyUUID) = Some EmptyUUID"
proof -
  let ?svc = "\<lparr>UUIDGeneratorService = None, ClusterConfig = Some (Cluster (Inr (Session None)))\<rparr>"
  let ?db = "\<lparr>tenantTable = [(GocqlUUID zeroArray, ''s3cr3t'')], applicationTable = [], issued = []\<rparr>"
  let ?db' = "\<lparr>tenantTable = [(GocqlUUID zeroArray, ''s3cr3t'')], applicationTable = [],
         issued = [SELECT_secret_key (UUID_String EmptyUUID),
                   SELECT_name (UUID_String EmptyUUID) (UUID_String EmptyUUID)]\<rparr>"
  have failed: "perform ?svc (OpDeleteApplication EmptyUUID EmptyUUID) ?db
     = (Return (Some (Errorf (''Tenant Application not found. Tenant ID: '' @ UUID_String EmptyUUID @
                              '', Application ID: '' @ UUID_String EmptyUUID))), ?db')"
    by (simp add: DeleteApplication_def doesTenantExist_eq doesApplicationExist_eq
        applicationNotFound_def example_simps)
  show ?thesis
    using not_found_before_any_mutation [OF failed] failed
    by simp
qed

section \<open>Referential integrity\<close>

lemma referentialIntegrity_issued [simp]:
  "referentialIntegrity (db\<lparr>issued := l\<rparr>) = referentialIntegrity db"
  by (simp add: referentialIntegrity_def)

lemma referentialIntegrity_INSERT_tenant:
  "referentialIntegrity db \<Longrightarrow> referentialIntegrity (applyStatement (INSERT_tenant k v) db)"
  by (auto simp: referentialIntegrity_def list_all_iff)

lemma referentialIntegrity_INSERT_application:
  "referentialIntegrity db \<Longrightarrow> tenantRows i db \<noteq> [] \<Longrightarrow>
     referentialIntegrity
       (applyStatement (INSERT_application (mapSystemUUIDToGocqlUUID i) a n) db)"
  by (auto simp: referentialIntegrity_def list_all_iff tenantRows_keys)

lemma referentialIntegrity_DELETE_application:
  "referentialIntegrity db \<Longrightarrow> referentialIntegrity (applyStatement (DELETE_application t a) db)"
  by (auto simp: referentialIntegrity_def list_all_iff)

lemma primaryKeyUnique_applyStatement:
  "primaryKeyUnique db \<Longrightarrow> primaryKeyUnique (applyStatement stmt db)"
  by (cases stmt) (auto simp: primaryKeyUnique_def distinct_map_filter)

lemmas perform_unfold =
  CreateTenant_def UpdateTenant_def ReadTenant_def DeleteTenant_def CreateApplication_def
  UpdateApplication_def ReadApplication_def ReadAllApplications_def DeleteApplication_def
  readAllApplications_def Iter_application_id_name_def operation_simps

lemma perform_referentialIntegrity:
  assumes "referentialIntegrity db" and "\<not> isDeleteTenant op"
  shows "referentialIntegrity (snd (perform svc op db))"
proof (cases op)
  case (OpCreateTenant t)
  with assms show ?thesis
    by (auto simp: perform_unfold simp del: applyStatement.simps
        intro!: referentialIntegrity_INSERT_tenant split: option.splits sum.splits)
next
  case (OpUpdateTenant i t)
  with assms show ?thesis
    by (auto simp: perform_unfold simp del: applyStatement.simps
        intro!: referentialIntegrity_INSERT_tenant split: option.splits sum.splits)
next
  case (OpReadTenant i)
  with assms show ?thesis
    by (auto simp: perform_unfold split: option.splits sum.splits list.splits)
next
  case (OpDeleteTenant i)
  with assms show ?thesis by simp
next
  case (OpCreateApplication i a)
  with assms show ?thesis
    by (auto simp: perform_unfold simp del: applyStatement.simps
        intro!: referentialIntegrity_INSERT_application split: option.splits sum.splits)
next
  case (OpUpdateApplication i j a)
  with assms show ?thesis
    by (auto simp: perform_unfold simp del: applyStatement.simps
        intro!: referentialIntegrity_INSERT_application split: option.splits sum.splits)
next
  case (OpReadApplication i j)
  with assms show ?thesis
    by (auto simp: perform_unfold split: option.splits sum.splits list.splits)
next
  case (OpReadAllApplications i)
  with assms show ?thesis
    by (auto simp: perform_unfold split: option.splits sum.splits)
next
  case (OpDeleteApplication i j)
  with assms show ?thesis
    by (auto simp: perform_unfold simp del: applyStatement.simps
        intro!: referentialIntegrity_DELETE_application split: option.splits sum.splits)
qed

lemma perform_primaryKeyUnique:
  assumes "primaryKeyUnique db"
  shows "primaryKeyUnique (snd (perform svc op db))"
proof (cases op)
  case (OpCreateTenant t)
  with assms show ?thesis
    by (auto simp: perform_unfold simp del: applyStatement.simps
        intro!: primaryKeyUnique_applyStatement split: option.splits sum.splits)
next
  case (OpUpdateTenant i t)
  with assms show ?thesis
    by (auto simp: perform_unfold simp del: applyStatement.simps
        intro!: primaryKeyUnique_applyStatement split: option.splits sum.splits)
next
  case (OpReadTenant i)
  with assms show ?thesis
    by (auto simp: perform_unfold split: option.splits sum.splits list.splits)
next
  case (OpDeleteTenant i)
  with assms show ?thesis
    by (auto simp: perform_unfold simp del: applyStatement.simps
        intro!: primaryKeyUnique_applyStatement split: option.splits sum.splits)
next
  case (OpCreateApplication i a)
  with assms show ?thesis
    by (auto simp: perform_unfold simp del: applyStatement.simps
        intro!: primaryKeyUnique_applyStatement split: option.splits sum.splits)
next
  case (OpUpdateApplication i j a)
  with assms show ?thesis
    by (auto simp: perform_unfold simp del: applyStatement.simps
        intro!: primaryKeyUnique_applyStatement split: option.splits sum.splits)
next
  case (OpReadApplication i j)
  with assms show ?thesis
    by (auto simp: perform_unfold split: option.splits sum.splits list.splits)
next
  case (OpReadAllApplications i)
  with assms show ?thesis
    by (auto simp: perform_unfold split: option.splits sum.splits)
next
  case (OpDeleteApplication i j)
  with assms show ?thesis
    by (auto simp: perform_unfold simp del: applyStatement.simps
        intro!: primaryKeyUnique_applyStatement split: option.splits sum.splits)
qed

lemma run_primaryKeyUnique_from:
  "primaryKeyUnique db \<Longrightarrow> primaryKeyUnique (run calls db)"
proof (induction calls arbitrary: db)
  case Nil
  then show ?case by simp
next
  case (Cons call calls)
  obtain svc op where "call = (svc, op)" by (cases call)
  with Cons show ?case
    by (simp add: perform_primaryKeyUnique)
qed

lemma reachable_primaryKeyUnique: "primaryKeyUnique (run calls emptyDatabase)"
  by (rule run_primaryKeyUnique_from) (simp add: primaryKeyUnique_def emptyDatabase_def)

lemma DeleteTenant_applicationTable:
  "applicationTable (snd (DeleteTenant svc i db)) = applicationTable db"
  by (auto simp: perform_unfold split: option.splits sum.splits)

text \<open>
  Claim C1, as amended. Every operation other than \<^verbatim>\<open>DeleteTenant\<close> preserves referential
  integrity: an application row is inserted only past the check that its tenant has a row.
  \<^verbatim>\<open>DeleteTenant\<close> removes the tenant row only and leaves the application table as it is,
  so the application rows of a deleted tenant stay stored.
\<close>

theorem referential_integrity_except_delete_tenant:
  "(referentialIntegrity db \<and> \<not> isDeleteTenant op \<longrightarrow>
      referentialIntegrity (snd (perform svc op db))) \<and>
   applicationTable (snd (perform svc (OpDeleteTenant tenantID) db)) = applicationTable db"
  using perform_referentialIntegrity [of db op svc]
  by (simp add: DeleteTenant_applicationTable)

theorem referential_integrity_except_delete_tenant_witness:
  "referentialIntegrity
     \<lparr>tenantTable = [(GocqlUUID zeroArray, ''s3cr3t'')], applicationTable = [], issued = []\<rparr> \<and>
   \<not> isDeleteTenant (OpCreateApplication EmptyUUID \<lparr>Name = ''billing''\<rparr>) \<and>
   referentialIntegrity
     (snd (perform
        \<lparr>UUIDGeneratorService = Some (Generator (Inr EmptyUUID)),
         ClusterConfig = Some (Cluster (Inr (Session None)))\<rparr>
        (OpCreateApplication EmptyUUID \<lparr>Name = ''billing''\<rparr>)
        \<lparr>tenantTable = [(GocqlUUID zeroArray, ''s3cr3t'')], applicationTable = [], issued = []\<rparr>)) \<and>
   applicationTable
     (snd (perform
        \<lparr>UUIDGeneratorService = Some (Generator (Inr EmptyUUID)),
         ClusterConfig = Some (Cluster (Inr (Session None)))\<rparr>
        (OpCreateApplication EmptyUUID \<lparr>Name = ''billing''\<rparr>)
        \<lparr>tenantTable = [(GocqlUUID zeroArray, ''s3cr3t'')], applicationTable = [], issued = []\<rparr>))
     = [(GocqlUUID zeroArray, GocqlUUID zeroArray, ''billing'')]"
  using referential_integrity_except_delete_tenant
    [where db = "\<lparr>tenantTable = [(GocqlUUID zeroArray, ''s3cr3t'')], applicationTable = [], issued = []\<rparr>"
       and op = "OpCreateApplication EmptyUUID \<lparr>Name = ''billing''\<rparr>"
       and svc = "\<lparr>UUIDGeneratorService = Some (Generator (Inr EmptyUUID)),
         ClusterConfig = Some (Cluster (Inr (Session None)))\<rparr>"]
  by (simp add: referentialIntegrity_def CreateApplication_def operation_simps example_simps)

text \<open>
  Claim C1, as stated, fails. After a tenant and an application under it have been
  created the database has referential integrity; after \<^verbatim>\<open>DeleteTenant\<close> for that tenant
  the application row is still stored and its tenant row is gone.
\<close>

theorem referential_integrity_counterexample:
  "referentialIntegrity
     (run [(\<lparr>UUIDGeneratorService =
               Some (Generator (Inr (SystemUUID (Abs_uuidArray (replicate 15 0 @ [1]))))),
             ClusterConfig = Some (Cluster (Inr (Session None)))\<rparr>,
            OpCreateTenant \<lparr>SecretKey = ''s3cr3t''\<rparr>),
           (\<lparr>UUIDGeneratorService =
               Some (Generator (Inr (SystemUUID (Abs_uuidArray (replicate 15 0 @ [2]))))),
             ClusterConfig = Some (Cluster (Inr (Session None)))\<rparr>,
            OpCreateApplication (SystemUUID (Abs_uuidArray (replicate 15 0 @ [1])))
              \<lparr>Name = ''billing''\<rparr>)]
        emptyDatabase) \<and>
   \<not> referentialIntegrity
     (run [(\<lparr>UUIDGeneratorService =
               Some (Generator (Inr (SystemUUID (Abs_uuidArray (replicate 15 0 @ [1]))))),
             ClusterConfig = Some (Cluster (Inr (Session None)))\<rparr>,
            OpCreateTenant \<lparr>SecretKey = ''s3cr3t''\<rparr>),
           (\<lparr>UUIDGeneratorService =
               Some (Generator (Inr (SystemUUID (Abs_uuidArray (replicate 15 0 @ [2]))))),
             ClusterConfig = Some (Cluster (Inr (Session None)))\<rparr>,
            OpCreateApplication (SystemUUID (Abs_uuidArray (replicate 15 0 @ [1])))
              \<lparr>Name = ''billing''\<rparr>),
           (\<lparr>UUIDGeneratorService = None,
             ClusterConfig = Some (Cluster (Inr (Session None)))\<rparr>,
            OpDeleteTenant (SystemUUID (Abs_uuidArray (replicate 15 0 @ [1]))))]
        emptyDatabase)"
  by (simp add: referentialIntegrity_def CreateTenant_def CreateApplication_def DeleteTenant_def
      operation_simps example_simps)

end
